theory Spec2Isabelle
  imports Main
begin

section \<open>Go values and library functions used by the sources\<close>

text \<open>
  A Go \<open>string\<close> is a sequence of bytes, here a \<open>string\<close> (a list of 8-bit characters).
  A Go \<open>map[string]string\<close> is an association list with pairwise distinct keys; the order of
  the list stands for the order in which a \<open>range\<close> loop happens to visit the map, which Go
  leaves unspecified, so a statement over all lists covers every iteration order.
  A Go \<open>error\<close> is the text of its message; a \<open>(value, error)\<close> result is a sum with the
  error on the left.
\<close>

type_synonym gomap = "(string \<times> string) list"

text \<open>How a call ends: it returns to its caller, terminates the process
  (\<open>os.Exit\<close>), or panics.\<close>

datatype 'a outcome = Returned 'a | Exited nat | Panicked string

text \<open>Indexing a Go map with a missing key gives the zero value, the empty string.\<close>

definition lookup :: "gomap \<Rightarrow> string \<Rightarrow> string" where
  "lookup m k = (case map_of m k of None \<Rightarrow> [] | Some v \<Rightarrow> v)"

text \<open>Assigning \<open>m[k] = v\<close>: replaces the value of an existing key, adds a new key otherwise.\<close>

fun assign :: "gomap \<Rightarrow> string \<Rightarrow> string \<Rightarrow> gomap" where
  "assign [] k v = [(k, v)]"
| "assign ((k', v') # m) k v = (if k' = k then (k, v) # m else (k', v') # assign m k v)"

subsection \<open>\<open>strings.TrimSpace\<close>\<close>

text \<open>
  \<open>strings.TrimSpace\<close> removes leading and trailing white space as Unicode defines it.
  The model works on the UTF-8 bytes: the six ASCII white space characters, and the
  encodings of U+0085, U+00A0, U+1680, U+2000 to U+200A, U+2028, U+2029, U+202F, U+205F and
  U+3000.
\<close>

definition asciiSpace :: "char \<Rightarrow> bool" where
  "asciiSpace c = (c \<in> set [CHR 0x09, CHR 0x0A, CHR 0x0B, CHR 0x0C, CHR 0x0D, CHR 0x20])"

definition spaceRunes :: "string list" where
  "spaceRunes =
     [[CHR 0xC2, CHR 0x85], [CHR 0xC2, CHR 0xA0], [CHR 0xE1, CHR 0x9A, CHR 0x80],
      [CHR 0xE2, CHR 0x80, CHR 0x80], [CHR 0xE2, CHR 0x80, CHR 0x81], [CHR 0xE2, CHR 0x80, CHR 0x82],
      [CHR 0xE2, CHR 0x80, CHR 0x83], [CHR 0xE2, CHR 0x80, CHR 0x84], [CHR 0xE2, CHR 0x80, CHR 0x85],
      [CHR 0xE2, CHR 0x80, CHR 0x86], [CHR 0xE2, CHR 0x80, CHR 0x87], [CHR 0xE2, CHR 0x80, CHR 0x88],
      [CHR 0xE2, CHR 0x80, CHR 0x89], [CHR 0xE2, CHR 0x80, CHR 0x8A], [CHR 0xE2, CHR 0x80, CHR 0xA8],
      [CHR 0xE2, CHR 0x80, CHR 0xA9], [CHR 0xE2, CHR 0x80, CHR 0xAF], [CHR 0xE2, CHR 0x81, CHR 0x9F],
      [CHR 0xE3, CHR 0x80, CHR 0x80]]"

text \<open>The number of bytes of the white space rune a byte string starts with (0 if it starts
  with none); \<open>rs\<close> lists the multi-byte candidates.\<close>

definition spaceWidth :: "string list \<Rightarrow> string \<Rightarrow> nat" where
  "spaceWidth rs s =
     (case s of
        [] \<Rightarrow> 0
      | c # _ \<Rightarrow>
          if asciiSpace c then 1
          else (case find (\<lambda>r. take (length r) s = r) rs of None \<Rightarrow> 0 | Some r \<Rightarrow> length r))"

fun trimLeft :: "string list \<Rightarrow> nat \<Rightarrow> string \<Rightarrow> string" where
  "trimLeft rs 0 s = s"
| "trimLeft rs (Suc n) s =
     (if spaceWidth rs s = 0 then s else trimLeft rs n (drop (spaceWidth rs s) s))"

definition TrimSpace :: "string \<Rightarrow> string" where
  "TrimSpace s =
     (let l = trimLeft spaceRunes (length s) s
      in rev (trimLeft (map rev spaceRunes) (length l) (rev l)))"

subsection \<open>\<open>strings.EqualFold\<close>\<close>

text \<open>
  \<open>strings.EqualFold s t\<close> compares under Unicode simple case folding. Every call in the
  sources passes an ASCII literal as \<open>t\<close>, and the model is exact for such a \<open>t\<close>: an ASCII
  byte of \<open>s\<close> matches the byte of \<open>t\<close> when they are equal or differ only in letter case,
  and the only other runes that fold to an ASCII letter are U+017F (long s, bytes C5 BF),
  which matches \<open>s\<close> and \<open>S\<close>, and U+212A (Kelvin sign, bytes E2 84 AA), which matches \<open>k\<close>
  and \<open>K\<close>.
\<close>

definition equalFoldASCII :: "char \<Rightarrow> char \<Rightarrow> bool" where
  "equalFoldASCII sr tr =
     (if tr = sr then True
      else
        (let lo = (if (of_char tr :: nat) < of_char sr then tr else sr);
             hi = (if (of_char tr :: nat) < of_char sr then sr else tr)
         in (65 :: nat) \<le> of_char lo \<and> (of_char lo :: nat) \<le> 90 \<and> (of_char hi :: nat) = of_char lo + 32))"

fun EqualFold :: "string \<Rightarrow> string \<Rightarrow> bool" where
  "EqualFold [] t = (t = [])"
| "EqualFold (c # s) [] = False"
| "EqualFold (c # s) (tr # t) =
     (if (of_char c :: nat) < 128 then equalFoldASCII c tr \<and> EqualFold s t
      else
        (case s of
           [] \<Rightarrow> False
         | c1 # s1 \<Rightarrow>
             if c = CHR 0xC5 \<and> c1 = CHR 0xBF then (tr = CHR ''s'' \<or> tr = CHR ''S'') \<and> EqualFold s1 t
             else
               (case s1 of
                  [] \<Rightarrow> False
                | c2 # s2 \<Rightarrow>
                    c = CHR 0xE2 \<and> c1 = CHR 0x84 \<and> c2 = CHR 0xAA \<and>
                    (tr = CHR ''k'' \<or> tr = CHR ''K'') \<and> EqualFold s2 t)))"

text \<open>
  Equality up to letter case in the plain sense, for comparison with \<open>EqualFold\<close>: two
  strings are equal once every ASCII capital letter is replaced by its small letter.
\<close>

definition toLowerASCII :: "char \<Rightarrow> char" where
  "toLowerASCII c =
     (if (65 :: nat) \<le> of_char c \<and> (of_char c :: nat) \<le> 90
      then char_of (of_char c + (32 :: nat)) else c)"

section \<open>Data, process state and collaborators\<close>

subsection \<open>Secret encryption (\<open>mi/utils/utils.go\<close>)\<close>

record metaData =
  Name :: string
  Namespace :: string

record k8sSecretConfig =
  APIVerion :: string
  Kind :: string
  MetaData :: metaData
  StringData :: gomap
  Type :: string

record SecretConfig =
  OutputType :: string
  Algorithm :: string
  InputType :: string
  InputFile :: string
  PlainTextAlias :: string
  PlainTextSecretText :: string

record rsa_PublicKey =
  N :: nat
  E :: nat

record rsa_PrivateKey =
  PublicKey :: rsa_PublicKey
  D :: nat

text \<open>What \<open>x509.ParsePKCS8PrivateKey\<close> can return: the dynamic type of its \<open>any\<close> result.\<close>

datatype pkcs8_key =
    RSAKey rsa_PrivateKey
  | ECDSAKey
  | Ed25519Key
  | ECDHKey

datatype hash = SHA1 | SHA256

datatype keystore = KeyStore string

text \<open>A YAML document, as \<open>yaml.Marshal\<close> renders a struct through its field tags.\<close>

datatype yaml = YStr string | YMap "(string \<times> yaml) list"

subsection \<open>Credentials (\<open>ExecutePreCommandWithBasicAuth\<close>, \<open>ExecutePreCommandWithOAuth\<close>)\<close>

text \<open>The record cached per environment in the keys file, in the field order of the
  literal \<open>EnvKeys{clientID, encryptedClientSecret, username}\<close>.\<close>

record EnvKeys =
  ClientID :: string
  ClientSecret :: string
  Username :: string

text \<open>An environment of the main configuration file.\<close>

record EnvEndpoints =
  APIManagerEndpoint :: string
  RegistrationEndpoint :: string
  TokenEndpoint :: string

text \<open>What the code reads of an HTTP response: \<open>StatusCode()\<close>, \<open>Status()\<close>, \<open>Body()\<close>,
  \<open>Error()\<close>.\<close>

record response =
  StatusCode :: nat
  Status :: string
  Body :: string
  Error :: string

subsection \<open>State and events\<close>

text \<open>
  The observable actions of a command, in the order they happen: lines on standard output
  (\<open>fmt.Println\<close>, \<open>fmt.Printf\<close>), log lines (\<open>Logln\<close>), the prompts on the terminal, the
  HTTP requests sent (URL, headers, body), the calls into \<open>crypto/rsa\<close> (with the state of the
  random source they draw from), and what is created on disk by the secret commands.
  \<open>Fatal\<close> is the diagnostic of \<open>HandleErrorAndExit\<close>.
\<close>

datatype event =
    Println string
  | Logln_call string
  | PromptForUsername_call
  | PromptForPassword_call
  | POST_call string gomap string
  | EncryptOAEP_call hash nat rsa_PublicKey string "string option"
  | EncryptPKCS1v15_call nat rsa_PublicKey string
  | CreateDirIfNotExist_call string
  | WriteConfigFile_call yaml string
  | PropertiesWritten gomap string
  | Fatal string string

text \<open>The state a command changes: the trace of its actions, the random source, and the
  keys files on disk (by path; each holds the cached record of every environment).\<close>

record state =
  trace :: "event list"
  rand_Reader :: nat
  keysFile :: "string \<Rightarrow> (string \<times> EnvKeys) list"

text \<open>
  The collaborators outside the repository: the file system, the properties and keystore
  libraries, \<open>encoding/base64\<close>, \<open>crypto/x509\<close> and \<open>crypto/rsa\<close>. The two RSA functions
  take the state of \<open>rand.Reader\<close> as their first or second argument.
\<close>

record mi_env =
  properties_LoadFile :: "string \<Rightarrow> string + gomap"
  base64_DecodeString :: "string \<Rightarrow> string"
  base64_EncodeToString :: "string \<Rightarrow> string"
  os_Open :: "string \<Rightarrow> string option"
  keyStore_Load :: "string \<Rightarrow> string \<Rightarrow> string + keystore"
  GetPrivateKeyEntry :: "keystore \<Rightarrow> string \<Rightarrow> string \<Rightarrow> string + string"
  x509_ParsePKCS8PrivateKey :: "string \<Rightarrow> string + pkcs8_key"
  rsa_EncryptOAEP :: "hash \<Rightarrow> nat \<Rightarrow> rsa_PublicKey \<Rightarrow> string \<Rightarrow> string option \<Rightarrow> string + string"
  rsa_EncryptPKCS1v15 :: "nat \<Rightarrow> rsa_PublicKey \<Rightarrow> string \<Rightarrow> string + string"
  os_Getwd :: string
  filepath_Join :: "string \<Rightarrow> string \<Rightarrow> string"
  os_Create :: "string \<Rightarrow> string option"
  props_Write :: "gomap \<Rightarrow> string \<Rightarrow> string option"
  ioutil_WriteFile :: "string \<Rightarrow> yaml \<Rightarrow> string option"

text \<open>
  The constants of package \<open>utils\<close> that the credential code uses and the sources do not
  define, and its collaborators: the main configuration file (by path), what the operator
  types at the two prompts, the HTTP transport, \<open>encoding/json\<close>, \<open>encoding/base64\<close>, and the
  package's own \<open>GetMD5Hash\<close>, \<open>Encrypt\<close> and \<open>Decrypt\<close>. \<open>registrationBody\<close> is the result of
  \<open>dedent.Dedent\<close> on the JSON literal of \<open>GetClientIDSecret\<close>.
\<close>

record cli_env =
  MainConfigFilePath :: string
  EnvKeysAllFilePath :: string
  MainConfigFileName :: string
  ProjectName :: string
  LogPrefixInfo :: string
  LogPrefixWarning :: string
  LogPrefixError :: string
  HeaderContentType :: string
  HeaderAuthorization :: string
  HeaderAccept :: string
  HeaderValueApplicationJSON :: string
  HeaderValueAuthBasicPrefix :: string
  HeaderValueAuthBearerPrefix :: string
  HeaderValueXWWWFormUrlEncoded :: string
  DefaultTokenValidityPeriod :: string
  registrationBody :: string
  mainConfigFile :: "string \<Rightarrow> (string \<times> EnvEndpoints) list"
  typedUsername :: string
  typedPassword :: string
  http_POST :: "string \<Rightarrow> gomap \<Rightarrow> string \<Rightarrow> string + response"
  json_Unmarshal_RegistrationResponse :: "string \<Rightarrow> (string \<times> string) \<times> string option"
  json_Unmarshal_map :: "string \<Rightarrow> gomap"
  StdEncoding_EncodeToString :: "string \<Rightarrow> string"
  GetMD5Hash :: "string \<Rightarrow> string"
  Encrypt :: "string \<Rightarrow> string \<Rightarrow> string"
  Decrypt :: "string \<Rightarrow> string \<Rightarrow> string"

definition emit :: "event \<Rightarrow> state \<Rightarrow> state" where
  "emit e s = s\<lparr>trace := trace s @ [e]\<rparr>"


subsection \<open>Helpers of the repository that are not among the sources\<close>

text \<open>
  Modelled from the spec: \<open>utils.HandleErrorAndExit\<close> is not among the sources. The spec has
  unrecoverable failures "terminate the process with a non-zero status after printing a
  human-readable diagnostic": the diagnostic is the event \<open>Fatal\<close>, the exit status is 1.
\<close>

definition HandleErrorAndExit :: "string \<Rightarrow> string \<Rightarrow> state \<Rightarrow> 'a outcome \<times> state" where
  "HandleErrorAndExit msg err s = (Exited 1, emit (Fatal msg err) s)"

text \<open>
  Modelled from the spec: \<open>utils.CreateDirIfNotExist\<close> is not among the sources. The spec has
  the \<open>security\<close> subdirectory "created if absent"; the source discards whatever the call
  returns.
\<close>

definition CreateDirIfNotExist :: "string \<Rightarrow> state \<Rightarrow> state" where
  "CreateDirIfNotExist path s = emit (CreateDirIfNotExist_call path) s"

text \<open>
  Modelled from the spec: \<open>utils.WriteConfigFile\<close> is not among the sources. The spec has the
  document "serialized to a file", and an I/O failure ends the process with a diagnostic.
\<close>

definition WriteConfigFile :: "mi_env \<Rightarrow> yaml \<Rightarrow> string \<Rightarrow> state \<Rightarrow> unit outcome \<times> state" where
  "WriteConfigFile w c path s =
     (case ioutil_WriteFile w path c of
        Some err \<Rightarrow> HandleErrorAndExit ''Unable to write configuration to file.'' err s
      | None \<Rightarrow> (Returned (), emit (WriteConfigFile_call c path) s))"

text \<open>The YAML rendering of the manifest struct: one entry per field, under the name its
  \<open>yaml:"..."\<close> tag gives.\<close>

definition marshal_k8sSecretConfig :: "k8sSecretConfig \<Rightarrow> yaml" where
  "marshal_k8sSecretConfig c =
     YMap [(''apiVersion'', YStr (APIVerion c)),
           (''kind'', YStr (Kind c)),
           (''metadata'', YMap [(''name'', YStr (Name (MetaData c))),
                                (''namespace'', YStr (Namespace (MetaData c)))]),
           (''stringData'', YMap (map (\<lambda>(k, v). (k, YStr v)) (StringData c))),
           (''type'', YStr (Type c))]"

section \<open>Secret encryption: the functions of \<open>mi/utils/utils.go\<close>\<close>

fun IsMapWithNonEmptyValues :: "gomap \<Rightarrow> state \<Rightarrow> bool \<times> state" where
  "IsMapWithNonEmptyValues [] s = (True, s)"
| "IsMapWithNonEmptyValues ((key, input) # inputs) s =
     (if length (TrimSpace input) = 0
      then (False, emit (Println (''Invalid input for '' @ key)) s)
      else IsMapWithNonEmptyValues inputs s)"

definition IsConsole :: "string \<Rightarrow> bool" where
  "IsConsole outputType = EqualFold outputType ''console''"

definition IsFile :: "string \<Rightarrow> bool" where
  "IsFile outputType = EqualFold outputType ''file''"

definition IsK8 :: "string \<Rightarrow> bool" where
  "IsK8 outputType = EqualFold outputType ''k8''"

definition IsPKCS1Encryption :: "string \<Rightarrow> bool" where
  "IsPKCS1Encryption algorithm = EqualFold algorithm ''RSA/ECB/PKCS1Padding''"

definition IsOAEPEncryption :: "string \<Rightarrow> bool" where
  "IsOAEPEncryption algorithm = EqualFold algorithm ''RSA/ECB/OAEPWithSHA1AndMGF1Padding''"

text \<open>\<open>properties.MustLoadFile\<close> panics when the file cannot be loaded.\<close>

definition readPropertiesFromFile :: "mi_env \<Rightarrow> string \<Rightarrow> gomap outcome" where
  "readPropertiesFromFile w fileName =
     (case properties_LoadFile w fileName of
        Inl err \<Rightarrow> Panicked err
      | Inr props \<Rightarrow> Returned props)"

definition readKeyStore :: "mi_env \<Rightarrow> string \<Rightarrow> string \<Rightarrow> string + keystore" where
  "readKeyStore w filename password =
     (case os_Open w filename of
        Some err \<Rightarrow> Inl err
      | None \<Rightarrow>
          (case keyStore_Load w filename password of
             Inl err \<Rightarrow> Inl err
           | Inr keyStore \<Rightarrow> Inr keyStore))"

text \<open>
  The type assertion \<open>key.(*rsa.PrivateKey)\<close> in its one-result form: it yields the RSA key,
  or panics when \<open>key\<close> is \<open>nil\<close> or holds a key of another type.
\<close>

definition assert_rsa_PrivateKey :: "pkcs8_key option \<Rightarrow> string + rsa_PrivateKey" where
  "assert_rsa_PrivateKey key =
     (case key of
        None \<Rightarrow> Inl ''interface conversion: interface {} is nil, not *rsa.PrivateKey''
      | Some (RSAKey rsaKey) \<Rightarrow> Inr rsaKey
      | Some ECDSAKey \<Rightarrow> Inl ''interface conversion: interface {} is *ecdsa.PrivateKey, not *rsa.PrivateKey''
      | Some Ed25519Key \<Rightarrow> Inl ''interface conversion: interface {} is ed25519.PrivateKey, not *rsa.PrivateKey''
      | Some ECDHKey \<Rightarrow> Inl ''interface conversion: interface {} is *ecdh.PrivateKey, not *rsa.PrivateKey'')"

text \<open>
  \<open>getEncryptionKey\<close>, statement by statement. \<open>x509.ParsePKCS8PrivateKey\<close> returns either a
  key and no error, or \<open>nil\<close> and an error; the source asserts the type of \<open>key\<close> on line 150
  and tests \<open>err\<close> only afterwards, on line 151.
\<close>

definition getEncryptionKey :: "mi_env \<Rightarrow> gomap \<Rightarrow> (string + rsa_PublicKey) outcome" where
  "getEncryptionKey w keyStoreConfigMap =
     (let keyStorePath = lookup keyStoreConfigMap ''secret.keystore.location'';
          keyStorePassword = base64_DecodeString w (lookup keyStoreConfigMap ''secret.keystore.password'')
      in case readKeyStore w keyStorePath keyStorePassword of
           Inl err \<Rightarrow> Returned (Inl (''Reading Key Store: '' @ err))
         | Inr keyStore \<Rightarrow>
             (let keyAlias = lookup keyStoreConfigMap ''secret.keystore.key.alias'';
                  keyPassword = base64_DecodeString w (lookup keyStoreConfigMap ''secret.keystore.key.password'')
              in case GetPrivateKeyEntry w keyStore keyAlias keyPassword of
                   Inl err \<Rightarrow> Returned (Inl (''Reading Key Entry: '' @ err))
                 | Inr pke \<Rightarrow>
                     (let (key, err) = (case x509_ParsePKCS8PrivateKey w pke of
                                          Inl e \<Rightarrow> (None, Some e)
                                        | Inr k \<Rightarrow> (Some k, None))
                      in case assert_rsa_PrivateKey key of
                           Inl p \<Rightarrow> Panicked p
                         | Inr rsaKey \<Rightarrow>
                             (case err of
                                Some e \<Rightarrow> Returned (Inl (''Parsing Key Entry: '' @ e))
                              | None \<Rightarrow> Returned (Inr (PublicKey rsaKey))))))"

text \<open>The two ciphers. Each call draws from \<open>rand.Reader\<close>, which moves on.\<close>

type_synonym encryptFunc = "rsa_PublicKey \<Rightarrow> string \<Rightarrow> state \<Rightarrow> (string + string) \<times> state"

definition encryptOAEP :: "mi_env \<Rightarrow> encryptFunc" where
  "encryptOAEP w key plainText s =
     (let r = rand_Reader s;
          s' = (emit (EncryptOAEP_call SHA1 r key plainText None) s)\<lparr>rand_Reader := Suc r\<rparr>
      in case rsa_EncryptOAEP w SHA1 r key plainText None of
           Inl err \<Rightarrow> (Inl err, s')
         | Inr encryptedBytes \<Rightarrow> (Inr (base64_EncodeToString w encryptedBytes), s'))"

definition encryptPKCS1v15 :: "mi_env \<Rightarrow> encryptFunc" where
  "encryptPKCS1v15 w key plainText s =
     (let r = rand_Reader s;
          s' = (emit (EncryptPKCS1v15_call r key plainText) s)\<lparr>rand_Reader := Suc r\<rparr>
      in case rsa_EncryptPKCS1v15 w r key plainText of
           Inl err \<Rightarrow> (Inl err, s')
         | Inr encryptedBytes \<Rightarrow> (Inr (base64_EncodeToString w encryptedBytes), s'))"

text \<open>The loop of \<open>encrypt\<close> over the plaintext map, with the map built so far.\<close>

fun encrypt_loop :: "rsa_PublicKey \<Rightarrow> gomap \<Rightarrow> encryptFunc \<Rightarrow> gomap \<Rightarrow> state \<Rightarrow> (string + gomap) \<times> state" where
  "encrypt_loop encryptionKey [] encryptFunction encryptedSecrets s = (Inr encryptedSecrets, s)"
| "encrypt_loop encryptionKey ((alias, plainText) # rest) encryptFunction encryptedSecrets s =
     (case encryptFunction encryptionKey plainText s of
        (Inl err, s') \<Rightarrow> (Inl err, s')
      | (Inr encryptedSecret, s') \<Rightarrow>
          encrypt_loop encryptionKey rest encryptFunction (assign encryptedSecrets alias encryptedSecret) s')"

definition encrypt :: "rsa_PublicKey \<Rightarrow> gomap \<Rightarrow> encryptFunc \<Rightarrow> state \<Rightarrow> (string + gomap) \<times> state" where
  "encrypt encryptionKey plainTextSecrets encryptFunction s =
     encrypt_loop encryptionKey plainTextSecrets encryptFunction [] s"

definition getPlainTextSecrets :: "mi_env \<Rightarrow> SecretConfig \<Rightarrow> gomap outcome" where
  "getPlainTextSecrets w secretConfig =
     (if IsFile (InputType secretConfig)
      then readPropertiesFromFile w (InputFile secretConfig)
      else Returned (assign [] (PlainTextAlias secretConfig) (PlainTextSecretText secretConfig)))"

definition WritePropertiesToFile :: "mi_env \<Rightarrow> gomap \<Rightarrow> string \<Rightarrow> state \<Rightarrow> unit outcome \<times> state" where
  "WritePropertiesToFile w variables fileName s =
     (case os_Create w fileName of
        Some err \<Rightarrow> HandleErrorAndExit ''Unable to create file.'' err s
      | None \<Rightarrow>
          (case props_Write w variables fileName of
             Some err \<Rightarrow> HandleErrorAndExit ''Unable to write properties to file.'' err s
           | None \<Rightarrow> (Returned (), emit (PropertiesWritten variables fileName) s)))"

definition getSecretFilePath :: "mi_env \<Rightarrow> string \<Rightarrow> state \<Rightarrow> string \<times> state" where
  "getSecretFilePath w fileName s =
     (let currentDir = os_Getwd w;
          secretDirPath = filepath_Join w currentDir ''security''
      in (filepath_Join w secretDirPath fileName, CreateDirIfNotExist secretDirPath s))"

fun printSecretsToConsole :: "gomap \<Rightarrow> state \<Rightarrow> state" where
  "printSecretsToConsole [] s = s"
| "printSecretsToConsole ((alias, secret) # secrets) s =
     printSecretsToConsole secrets (emit (Println (alias @ '' : '' @ secret)) s)"

definition printSecretsToPropertiesFile :: "mi_env \<Rightarrow> gomap \<Rightarrow> state \<Rightarrow> unit outcome \<times> state" where
  "printSecretsToPropertiesFile w secrets s =
     (case getSecretFilePath w ''wso2mi-secrets.properties'' s of
        (secretFilePath, s1) \<Rightarrow>
          (case WritePropertiesToFile w secrets secretFilePath s1 of
             (Returned u, s2) \<Rightarrow>
               (Returned (), emit (Println (''Secret properties file created in '' @ secretFilePath)) s2)
           | (Exited n, s2) \<Rightarrow> (Exited n, s2)
           | (Panicked p, s2) \<Rightarrow> (Panicked p, s2)))"

definition printSecretsToYamlFile :: "mi_env \<Rightarrow> gomap \<Rightarrow> state \<Rightarrow> unit outcome \<times> state" where
  "printSecretsToYamlFile w secrets s =
     (let secretConfig = \<lparr>APIVerion = ''v1'', Kind = ''Secret'',
                           MetaData = \<lparr>Name = ''wso2misecret'', Namespace = ''default''\<rparr>,
                           StringData = secrets, Type = ''Opaque''\<rparr>
      in case getSecretFilePath w ''wso2mi-secrets.yaml'' s of
           (secretFilePath, s1) \<Rightarrow>
             (case WriteConfigFile w (marshal_k8sSecretConfig secretConfig) secretFilePath s1 of
                (Returned u, s2) \<Rightarrow>
                  (Returned (),
                   emit (Println ''You can change the default values as required before applying.'')
                     (emit (Println (''Kubernetes secret file created in '' @ secretFilePath @
                                     '' with default name and namespace'')) s2))
              | (Exited n, s2) \<Rightarrow> (Exited n, s2)
              | (Panicked p, s2) \<Rightarrow> (Panicked p, s2)))"

text \<open>\<open>EncryptSecrets\<close> returns a Go \<open>error\<close>: \<open>None\<close> is \<open>nil\<close>.\<close>

definition EncryptSecrets :: "mi_env \<Rightarrow> string \<Rightarrow> SecretConfig \<Rightarrow> state \<Rightarrow> string option outcome \<times> state" where
  "EncryptSecrets w keyStorePropertiesFile secretConfig s =
     (case readPropertiesFromFile w keyStorePropertiesFile of
        Panicked p \<Rightarrow> (Panicked p, s)
      | Exited n \<Rightarrow> (Exited n, s)
      | Returned keyStoreConfigMap \<Rightarrow>
          (case getEncryptionKey w keyStoreConfigMap of
             Panicked p \<Rightarrow> (Panicked p, s)
           | Exited n \<Rightarrow> (Exited n, s)
           | Returned (Inl err) \<Rightarrow> (Returned (Some err), s)
           | Returned (Inr encryptionKey) \<Rightarrow>
               (case getPlainTextSecrets w secretConfig of
                  Panicked p \<Rightarrow> (Panicked p, s)
                | Exited n \<Rightarrow> (Exited n, s)
                | Returned plainTextSecrets \<Rightarrow>
                    (case (if IsPKCS1Encryption (Algorithm secretConfig)
                           then encrypt encryptionKey plainTextSecrets (encryptPKCS1v15 w) s
                           else encrypt encryptionKey plainTextSecrets (encryptOAEP w) s) of
                       (Inl err, s1) \<Rightarrow> (Returned (Some err), s1)
                     | (Inr encryptedSecrets, s1) \<Rightarrow>
                         (if IsK8 (OutputType secretConfig) then
                            (case printSecretsToYamlFile w encryptedSecrets s1 of
                               (Returned u, s2) \<Rightarrow> (Returned None, s2)
                             | (Exited n, s2) \<Rightarrow> (Exited n, s2)
                             | (Panicked p, s2) \<Rightarrow> (Panicked p, s2))
                          else if IsFile (OutputType secretConfig) then
                            (case printSecretsToPropertiesFile w encryptedSecrets s1 of
                               (Returned u, s2) \<Rightarrow> (Returned None, s2)
                             | (Exited n, s2) \<Rightarrow> (Exited n, s2)
                             | (Panicked p, s2) \<Rightarrow> (Panicked p, s2))
                          else (Returned None, printSecretsToConsole encryptedSecrets s1))))))"


section \<open>Credentials: the functions of package \<open>utils\<close>\<close>

subsection \<open>Helpers of the package that are not among the sources\<close>

text \<open>
  Modelled from the spec: \<open>EnvExistsInMainConfigFile\<close> is not among the sources. The spec has
  an environment "read from a configuration file" and found by its name, which is its
  unique key; an environment without an entry is "unknown to configuration".
\<close>

definition EnvExistsInMainConfigFile :: "cli_env \<Rightarrow> string \<Rightarrow> string \<Rightarrow> bool" where
  "EnvExistsInMainConfigFile w env filePath = (map_of (mainConfigFile w filePath) env \<noteq> None)"

text \<open>
  Modelled from the spec: \<open>GetAPIMEndpointOfEnv\<close> is not among the sources. The spec gives an
  environment a "management-API endpoint".
\<close>

definition GetAPIMEndpointOfEnv :: "cli_env \<Rightarrow> string \<Rightarrow> string \<Rightarrow> string" where
  "GetAPIMEndpointOfEnv w env filePath =
     (case map_of (mainConfigFile w filePath) env of None \<Rightarrow> [] | Some e \<Rightarrow> APIManagerEndpoint e)"

text \<open>
  Modelled from the spec: \<open>GetRegistrationEndpointOfEnv\<close> is not among the sources. The spec
  gives an environment a "client-registration endpoint".
\<close>

definition GetRegistrationEndpointOfEnv :: "cli_env \<Rightarrow> string \<Rightarrow> string \<Rightarrow> string" where
  "GetRegistrationEndpointOfEnv w env filePath =
     (case map_of (mainConfigFile w filePath) env of None \<Rightarrow> [] | Some e \<Rightarrow> RegistrationEndpoint e)"

text \<open>
  Modelled from the spec: \<open>GetTokenEndpointOfEnv\<close> is not among the sources. The spec gives an
  environment a "token endpoint".
\<close>

definition GetTokenEndpointOfEnv :: "cli_env \<Rightarrow> string \<Rightarrow> string \<Rightarrow> string" where
  "GetTokenEndpointOfEnv w env filePath =
     (case map_of (mainConfigFile w filePath) env of None \<Rightarrow> [] | Some e \<Rightarrow> TokenEndpoint e)"

text \<open>
  Modelled from the spec: \<open>EnvExistsInKeysFile\<close> is not among the sources. It is the
  \<open>Exists(environment, filePath)\<close> of the spec's credential store, whose records are "keyed by
  environment name".
\<close>

definition EnvExistsInKeysFile :: "string \<Rightarrow> string \<Rightarrow> state \<Rightarrow> bool" where
  "EnvExistsInKeysFile env filePath s = (map_of (keysFile s filePath) env \<noteq> None)"

text \<open>
  Modelled from the spec: \<open>GetUsernameOfEnv\<close> is not among the sources. It reads the username
  of the record that the spec's \<open>Get(environment, filePath)\<close> finds.
\<close>

definition GetUsernameOfEnv :: "string \<Rightarrow> string \<Rightarrow> state \<Rightarrow> string" where
  "GetUsernameOfEnv env filePath s =
     (case map_of (keysFile s filePath) env of None \<Rightarrow> [] | Some k \<Rightarrow> Username k)"

text \<open>
  Modelled from the spec: \<open>GetClientIDOfEnv\<close> is not among the sources. It reads the client
  identifier of the record that the spec's \<open>Get(environment, filePath)\<close> finds.
\<close>

definition GetClientIDOfEnv :: "string \<Rightarrow> string \<Rightarrow> state \<Rightarrow> string" where
  "GetClientIDOfEnv env filePath s =
     (case map_of (keysFile s filePath) env of None \<Rightarrow> [] | Some k \<Rightarrow> ClientID k)"

text \<open>
  Modelled from the spec: \<open>GetClientSecretOfEnv\<close> is not among the sources. In the spec "the
  cached encrypted client secret is decrypted using a key derived from the freshly supplied
  password", the key being "the hash of the password".
\<close>

definition GetClientSecretOfEnv :: "cli_env \<Rightarrow> string \<Rightarrow> string \<Rightarrow> string \<Rightarrow> state \<Rightarrow> string" where
  "GetClientSecretOfEnv w env password filePath s =
     (case map_of (keysFile s filePath) env of
        None \<Rightarrow> []
      | Some k \<Rightarrow> Decrypt w (GetMD5Hash w password) (ClientSecret k))"

text \<open>
  Modelled from the spec: the update of the entries of one keys file, used by
  \<open>AddNewEnvToKeysFile\<close> below, which "appends or replaces the record for that environment
  key".
\<close>

fun put :: "(string \<times> EnvKeys) list \<Rightarrow> string \<Rightarrow> EnvKeys \<Rightarrow> (string \<times> EnvKeys) list" where
  "put [] env keys = [(env, keys)]"
| "put ((e, k) # rest) env keys = (if e = env then (env, keys) # rest else (e, k) # put rest env keys)"

text \<open>
  Modelled from the spec: \<open>AddNewEnvToKeysFile\<close> is not among the sources. It is the
  \<open>Put(environment, record, filePath)\<close> of the spec, which "appends or replaces the record for
  that environment key in the backing file".
\<close>

definition AddNewEnvToKeysFile :: "string \<Rightarrow> EnvKeys \<Rightarrow> string \<Rightarrow> state \<Rightarrow> state" where
  "AddNewEnvToKeysFile env envKeys filePath s =
     s\<lparr>keysFile := (keysFile s)(filePath := put (keysFile s filePath) env envKeys)\<rparr>"

text \<open>
  Modelled from the spec: \<open>PromptForUsername\<close> is not among the sources. The spec has the
  username collected by a "blocking read from the controlling terminal".
\<close>

definition PromptForUsername :: "cli_env \<Rightarrow> state \<Rightarrow> string \<times> state" where
  "PromptForUsername w s = (typedUsername w, emit PromptForUsername_call s)"

text \<open>
  Modelled from the spec: \<open>PromptForPassword\<close> is not among the sources. The spec has the
  password collected by an "interactive masked prompt".
\<close>

definition PromptForPassword :: "cli_env \<Rightarrow> state \<Rightarrow> string \<times> state" where
  "PromptForPassword w s = (typedPassword w, emit PromptForPassword_call s)"

text \<open>
  Modelled from the spec: \<open>Logln\<close> is not among the sources. General logging is outside the
  spec's core; a call is recorded with the line it would write.
\<close>

definition Logln :: "string \<Rightarrow> state \<Rightarrow> state" where
  "Logln msg s = emit (Logln_call msg) s"

text \<open>
  Modelled from the spec: \<open>InvokePOSTRequest\<close> is not among the sources. The spec treats the
  transport as "an external collaborator exposing
  \<open>POST(url, headers, body) -> (status, body, error)\<close>".
\<close>

definition InvokePOSTRequest :: "cli_env \<Rightarrow> string \<Rightarrow> gomap \<Rightarrow> string \<Rightarrow> state \<Rightarrow> (string + response) \<times> state" where
  "InvokePOSTRequest w url headers body s = (http_POST w url headers body, emit (POST_call url headers body) s)"

subsection \<open>The functions of the source\<close>

definition println :: "string \<Rightarrow> state \<Rightarrow> state" where
  "println line s = emit (Println line) s"

definition GetBase64EncodedCredentials :: "cli_env \<Rightarrow> string \<Rightarrow> string \<Rightarrow> string" where
  "GetBase64EncodedCredentials w key secret =
     (let line = key @ '':'' @ secret
      in StdEncoding_EncodeToString w line)"

definition StatusOK :: nat where "StatusOK = 200"
definition StatusCreated :: nat where "StatusCreated = 201"
definition StatusUnauthorized :: nat where "StatusUnauthorized = 401"

text \<open>
  \<open>GetClientIDSecret\<close>. \<open>fmt.Printf("Body: %s\n", ...)\<close> writes one line, as \<open>fmt.Println\<close> does;
  \<open>fmt.Println\<close> and \<open>Logln\<close> with several arguments put a blank between them.
\<close>

definition GetClientIDSecret :: "cli_env \<Rightarrow> string \<Rightarrow> string \<Rightarrow> string \<Rightarrow> state \<Rightarrow> (string \<times> string \<times> string option) outcome \<times> state" where
  "GetClientIDSecret w username password url s =
     (let body = registrationBody w;
          headers = assign [] (HeaderContentType w) (HeaderValueApplicationJSON w);
          headers = assign headers (HeaderAuthorization w)
                      (HeaderValueAuthBasicPrefix w @ '' '' @ GetBase64EncodedCredentials w username password)
      in case InvokePOSTRequest w url headers body s of
           (Inl err, s1) \<Rightarrow> HandleErrorAndExit ''Error in connecting.'' err s1
         | (Inr resp, s1) \<Rightarrow>
             (let s2 = Logln (''Getting ClientID, ClientSecret: Status - '' @ Status resp) s1
              in if StatusCode resp = StatusOK \<or> StatusCode resp = StatusCreated then
                   (case json_Unmarshal_RegistrationResponse w (Body resp) of
                      ((clientID, clientSecret), err) \<Rightarrow> (Returned (clientID, clientSecret, err), s2))
                 else
                   (let s3 = println (''Error: '' @ Error resp) s2;
                        s4 = println (''Body: '' @ Body resp) s3
                    in if StatusCode resp = StatusUnauthorized then
                         HandleErrorAndExit ''Incorrect Username/Password combination.'' ''401 Unauthorized'' s4
                       else
                         (Returned ([], [], Some (''Request didn'' @ [CHR 0x27] @ ''t respond 200 OK: '' @ Status resp)), s4))))"

definition GetOAuthTokens :: "cli_env \<Rightarrow> string \<Rightarrow> string \<Rightarrow> string \<Rightarrow> string \<Rightarrow> state \<Rightarrow> (gomap \<times> string option) outcome \<times> state" where
  "GetOAuthTokens w username password b64EncodedClientIDClientSecret url s =
     (let validityPeriod = DefaultTokenValidityPeriod w;
          body = ''grant_type=password&username='' @ username @ ''&password='' @ password @
                 ''&validity_period='' @ validityPeriod @ ''&scope=apim:api_view'';
          headers = assign [] (HeaderContentType w) (HeaderValueXWWWFormUrlEncoded w);
          headers = assign headers (HeaderAuthorization w)
                      (HeaderValueAuthBearerPrefix w @ '' '' @ b64EncodedClientIDClientSecret);
          headers = assign headers (HeaderAccept w) (HeaderValueApplicationJSON w);
          s1 = Logln (LogPrefixError w @ ''connecting to '' @ url) s
      in case InvokePOSTRequest w url headers body s1 of
           (Inl err, s2) \<Rightarrow> HandleErrorAndExit ''Unable to Connect.'' err s2
         | (Inr resp, s2) \<Rightarrow>
             if StatusCode resp \<noteq> StatusOK then
               HandleErrorAndExit ''Unable to connect.'' (''Status: '' @ Status resp) s2
             else
               (let responseDataMap = json_Unmarshal_map w (Body resp)
                in (Returned (responseDataMap, None), s2)))"


text \<open>The character \<open>'\<close> inside the messages.\<close>

definition apostrophe :: string where
  "apostrophe = [CHR 0x27]"

text \<open>
  \<open>ExecutePreCommandWithBasicAuth\<close>. The first \<open>case\<close> is the \<open>if\<close> statement of lines 49 to
  114, which leaves the username and the password or ends the process. Nothing assigns the
  local \<open>err\<close>, so the test \<open>err != nil\<close> of line 111 never holds and is left out.
\<close>

definition ExecutePreCommandWithBasicAuth ::
  "cli_env \<Rightarrow> string \<Rightarrow> string \<Rightarrow> string \<Rightarrow> string \<Rightarrow> string \<Rightarrow> state \<Rightarrow> (string \<times> string \<times> string option) outcome \<times> state" where
  "ExecutePreCommandWithBasicAuth w environment flagUsername flagPassword mainConfigFilePath envKeysAllFilePath s =
     (if EnvExistsInMainConfigFile w environment (MainConfigFilePath w) then
        (let apiManagerEndpoint = GetAPIMEndpointOfEnv w environment mainConfigFilePath;
             s1 = Logln (LogPrefixInfo w @ ''Environment: '' @ apostrophe @ environment @ apostrophe) s
         in case
              (if EnvExistsInKeysFile environment envKeysAllFilePath s1 then
                 (let username = GetUsernameOfEnv environment envKeysAllFilePath s1
                  in if flagUsername \<noteq> [] then
                       (if flagUsername \<noteq> username then
                          (let s2 = println (LogPrefixWarning w @ ''Username entered with flag -u for the environment '' @
                                      apostrophe @ environment @ apostrophe @
                                      '' is not the same as username found in file '' @
                                      apostrophe @ EnvKeysAllFilePath w @ apostrophe) s1;
                               s3 = println (''Execute '' @ apostrophe @ ProjectName w @ '' reset-user -e '' @
                                      environment @ apostrophe @ '' to clear user data'') s2
                           in (Exited 1, s3))
                        else if flagPassword = [] then
                          (case PromptForPassword w (println (''For Username: '' @ username) s1) of
                             (password, s2) \<Rightarrow> (Returned (username, password), s2))
                        else (Returned (username, flagPassword), s1))
                     else if flagPassword \<noteq> [] then (Returned (username, flagPassword), s1)
                     else
                       (case PromptForPassword w (println (''For username: '' @ username) s1) of
                          (password, s2) \<Rightarrow> (Returned (username, password), s2)))
               else
                 (case
                    (if flagUsername \<noteq> [] then
                       (if flagPassword = [] then
                          (case PromptForPassword w (println (''For Username: '' @ flagUsername) s1) of
                             (password, s2) \<Rightarrow> ((flagUsername, password), s2))
                        else ((flagUsername, flagPassword), s1))
                     else
                       (case PromptForUsername w s1 of
                          (typed, s2) \<Rightarrow>
                            (case PromptForPassword w s2 of
                               (password, s3) \<Rightarrow> ((TrimSpace typed, password), s3))))
                  of ((username, password), s4) \<Rightarrow>
                    (Returned (username, password),
                     println ([CHR 0x0A] @ ''Username: '' @ username @ [CHR 0x0A]) s4)))
            of
              (Exited n, s5) \<Rightarrow> (Exited n, s5)
            | (Panicked p, s5) \<Rightarrow> (Panicked p, s5)
            | (Returned (username, password), s5) \<Rightarrow>
                (let b64encodedCredentials = GetBase64EncodedCredentials w username password;
                     s6 = Logln (LogPrefixInfo w @ ''[Remove in Production] Base64EncodedCredentials: '' @
                                 b64encodedCredentials) s5
                 in (Returned (b64encodedCredentials, apiManagerEndpoint, None), s6)))
      else if environment = [] then
        (Returned ([], [],
           Some (''no environment specified. Either specify it using the -e flag or name one of '' @
                 ''the environments in '' @ apostrophe @ MainConfigFileName w @ apostrophe @
                 '' to '' @ apostrophe @ ''default'' @ apostrophe)), s)
      else
        (Returned ([], [],
           Some (''Details incorrect/unavailable for environment '' @ apostrophe @ environment @
                 apostrophe @ '' in '' @ mainConfigFilePath)), s))"

text \<open>
  \<open>ExecutePreCommandWithOAuth\<close>. The first \<open>case\<close> is the \<open>if\<close> statement of lines 158 to 237,
  which leaves the username, the password, the client id and the client secret; the rest is
  the token request of lines 239 to 246.
\<close>

definition ExecutePreCommandWithOAuth ::
  "cli_env \<Rightarrow> string \<Rightarrow> string \<Rightarrow> string \<Rightarrow> string \<Rightarrow> string \<Rightarrow> state \<Rightarrow> (string \<times> string \<times> string option) outcome \<times> state" where
  "ExecutePreCommandWithOAuth w environment flagUsername flagPassword mainConfigFilePath envKeysAllFilePath s =
     (if EnvExistsInMainConfigFile w environment (MainConfigFilePath w) then
        (let registrationEndpoint = GetRegistrationEndpointOfEnv w environment (MainConfigFilePath w);
             apiManagerEndpoint = GetAPIMEndpointOfEnv w environment mainConfigFilePath;
             tokenEndpoint = GetTokenEndpointOfEnv w environment mainConfigFilePath;
             s0 = Logln (LogPrefixInfo w @ ''Environment: '' @ apostrophe @ environment @ apostrophe) s;
             s1 = Logln (LogPrefixInfo w @ ''Reg Endpoint read: '' @ registrationEndpoint) s0
         in case
              (if EnvExistsInKeysFile environment envKeysAllFilePath s1 then
                 (let username = GetUsernameOfEnv environment envKeysAllFilePath s1
                  in case
                       (if flagUsername \<noteq> [] then
                          (if flagUsername \<noteq> username then
                             (let s2 = println (LogPrefixWarning w @ ''Username entered with flag -u for the environment '' @
                                         apostrophe @ environment @ apostrophe @
                                         '' is not the same as username found in file '' @
                                         apostrophe @ EnvKeysAllFilePath w @ apostrophe) s1;
                                  s3 = println (''Execute '' @ apostrophe @ ProjectName w @ '' reset-user -e '' @
                                         environment @ apostrophe @ '' to clear user data'') s2
                              in (Exited 1, s3))
                           else if flagPassword = [] then
                             (case PromptForPassword w (println (''For Username: '' @ username) s1) of
                                (password, s2) \<Rightarrow> (Returned password, s2))
                           else (Returned flagPassword, s1))
                        else if flagPassword \<noteq> [] then (Returned flagPassword, s1)
                        else
                          (case PromptForPassword w (println (''For username: '' @ username) s1) of
                             (password, s2) \<Rightarrow> (Returned password, s2)))
                     of
                       (Exited n, s4) \<Rightarrow> (Exited n, s4)
                     | (Panicked p, s4) \<Rightarrow> (Panicked p, s4)
                     | (Returned password, s4) \<Rightarrow>
                         (let clientID = GetClientIDOfEnv environment envKeysAllFilePath s4;
                              clientSecret = GetClientSecretOfEnv w environment password envKeysAllFilePath s4;
                              s5 = Logln (LogPrefixInfo w @ ''Username: '' @ username) s4;
                              s6 = Logln (LogPrefixInfo w @ ''ClientID: '' @ clientID) s5
                          in (Returned (username, password, clientID, clientSecret), s6)))
               else
                 (case
                    (if flagUsername \<noteq> [] then
                       (if flagPassword = [] then
                          (case PromptForPassword w (println (''For Username: '' @ flagUsername) s1) of
                             (password, s2) \<Rightarrow> ((flagUsername, password), s2))
                        else ((flagUsername, flagPassword), s1))
                     else
                       (case PromptForUsername w s1 of
                          (typed, s2) \<Rightarrow>
                            (case PromptForPassword w s2 of
                               (password, s3) \<Rightarrow> ((TrimSpace typed, password), s3))))
                  of ((username, password), s4) \<Rightarrow>
                    (case GetClientIDSecret w username password registrationEndpoint
                            (println ([CHR 0x0A] @ ''Username: '' @ username @ [CHR 0x0A]) s4) of
                       (Exited n, s5) \<Rightarrow> (Exited n, s5)
                     | (Panicked p, s5) \<Rightarrow> (Panicked p, s5)
                     | (Returned (clientID, clientSecret, err), s5) \<Rightarrow>
                         (let s6 = (case err of None \<Rightarrow> s5 | Some e \<Rightarrow> println (''Error: '' @ e) s5);
                              s7 = println (''ClientID: '' @ clientID) s6;
                              s8 = println (''ClientSecret: '' @ clientSecret) s7;
                              encryptedClientSecret = Encrypt w (GetMD5Hash w password) clientSecret;
                              envKeys = \<lparr>ClientID = clientID, ClientSecret = encryptedClientSecret,
                                         Username = username\<rparr>;
                              s9 = AddNewEnvToKeysFile environment envKeys envKeysAllFilePath s8
                          in (Returned (username, password, clientID, clientSecret), s9)))))
            of
              (Exited n, s10) \<Rightarrow> (Exited n, s10)
            | (Panicked p, s10) \<Rightarrow> (Panicked p, s10)
            | (Returned (username, password, clientID, clientSecret), s10) \<Rightarrow>
                (case GetOAuthTokens w username password
                        (GetBase64EncodedCredentials w clientID clientSecret) tokenEndpoint s10 of
                   (Exited n, s11) \<Rightarrow> (Exited n, s11)
                 | (Panicked p, s11) \<Rightarrow> (Panicked p, s11)
                 | (Returned (responseDataMap, ignored), s11) \<Rightarrow>
                     (let accessToken = lookup responseDataMap ''access_token'';
                          s12 = Logln (LogPrefixInfo w @ ''[Remove in Production] AccessToken: '' @ accessToken) s11
                      in (Returned (accessToken, apiManagerEndpoint, None), s12))))
      else if environment = [] then
        (Returned ([], [],
           Some (''no environment specified. Either specify it using the -e flag or name one of '' @
                 ''the environments in '' @ apostrophe @ MainConfigFileName w @ apostrophe @
                 '' to '' @ apostrophe @ ''default'' @ apostrophe)), s)
      else
        (Returned ([], [],
           Some (''Details incorrect/unavailable for environment '' @ apostrophe @ environment @
                 apostrophe @ '' in '' @ mainConfigFilePath)), s))"


section \<open>Reading a trace\<close>

text \<open>The cryptographic calls and the network calls among the events of a trace.\<close>

fun isCryptoCall :: "event \<Rightarrow> bool" where
  "isCryptoCall (EncryptOAEP_call h r k p l) = True"
| "isCryptoCall (EncryptPKCS1v15_call r k p) = True"
| "isCryptoCall e = False"

fun isPOST :: "event \<Rightarrow> bool" where
  "isPOST (POST_call url headers body) = True"
| "isPOST e = False"

section \<open>Concrete inputs\<close>

text \<open>
  A small world on which the functions can be run: a keystore properties file that names a
  keystore holding the PKCS#8 key found under the alias \<open>wso2carbon\<close>, two bulk files of two
  secrets each, and RSA functions that refuse a message of more than eight bytes. \<open>example_mi_env\<close>
  takes the bytes of the private-key entry.
\<close>

definition example_mi_env :: "string \<Rightarrow> mi_env" where
  "example_mi_env pke =
     \<lparr>properties_LoadFile = (\<lambda>f.
          if f = ''keystore-info.properties''
          then Inr [(''secret.keystore.location'', ''wso2carbon.jks''),
                    (''secret.keystore.password'', ''d3NvMg==''),
                    (''secret.keystore.key.alias'', ''wso2carbon''),
                    (''secret.keystore.key.password'', ''d3NvMg=='')]
          else if f = ''secrets.properties''
          then Inr [(''db'', ''s3cr3t''), (''queue'', ''a-long-passphrase'')]
          else if f = ''short.properties''
          then Inr [(''db'', ''s3cr3t''), (''queue'', ''pa55'')]
          else Inl ''open: no such file or directory''),
      base64_DecodeString = (\<lambda>x. if x = ''d3NvMg=='' then ''wso2'' else []),
      base64_EncodeToString = (\<lambda>x. ''b64('' @ x @ '')''),
      os_Open = (\<lambda>f. if f = ''wso2carbon.jks'' then None else Some ''open: no such file or directory''),
      keyStore_Load = (\<lambda>f p. if p = ''wso2'' then Inr (KeyStore f) else Inl ''invalid digest''),
      GetPrivateKeyEntry = (\<lambda>ks a p. if a = ''wso2carbon'' then Inr pke else Inl ''entry not found''),
      x509_ParsePKCS8PrivateKey = (\<lambda>b.
          if b = ''pkcs8-rsa'' then Inr (RSAKey \<lparr>PublicKey = \<lparr>N = 3233, E = 17\<rparr>, D = 2753\<rparr>)
          else if b = ''pkcs8-ec'' then Inr ECDSAKey
          else Inl ''x509: failed to parse private key''),
      rsa_EncryptOAEP = (\<lambda>h r k m l.
          if length m > 8 then Inl ''crypto/rsa: message too long for RSA key size''
          else Inr (''oaep:'' @ m)),
      rsa_EncryptPKCS1v15 = (\<lambda>r k m.
          if length m > 8 then Inl ''crypto/rsa: message too long for RSA key size''
          else Inr (''pkcs1:'' @ m)),
      os_Getwd = ''/home/op'',
      filepath_Join = (\<lambda>a b. a @ ''/'' @ b),
      os_Create = (\<lambda>f. None),
      props_Write = (\<lambda>m f. None),
      ioutil_WriteFile = (\<lambda>f d. None)\<rparr>"

definition example_key :: rsa_PublicKey where
  "example_key = \<lparr>N = 3233, E = 17\<rparr>"

definition example_keystore_properties :: gomap where
  "example_keystore_properties =
     [(''secret.keystore.location'', ''wso2carbon.jks''),
      (''secret.keystore.password'', ''d3NvMg==''),
      (''secret.keystore.key.alias'', ''wso2carbon''),
      (''secret.keystore.key.password'', ''d3NvMg=='')]"

text \<open>A configuration for one alias and one secret text, by output form, algorithm label and
  secret text.\<close>

definition example_config :: "string \<Rightarrow> string \<Rightarrow> string \<Rightarrow> SecretConfig" where
  "example_config out alg secret =
     \<lparr>OutputType = out, Algorithm = alg, InputType = ''console'', InputFile = [],
      PlainTextAlias = ''db'', PlainTextSecretText = secret\<rparr>"

text \<open>A configuration that reads the bulk file.\<close>

definition example_file_config :: "string \<Rightarrow> string \<Rightarrow> SecretConfig" where
  "example_file_config out alg =
     \<lparr>OutputType = out, Algorithm = alg, InputType = ''file'', InputFile = ''secrets.properties'',
      PlainTextAlias = [], PlainTextSecretText = []\<rparr>"

text \<open>The state of a process that has done nothing yet, with the given keys file at the
  path the examples use.\<close>

definition example_state :: "(string \<times> EnvKeys) list \<Rightarrow> state" where
  "example_state keys =
     \<lparr>trace = [], rand_Reader = 0,
      keysFile = (\<lambda>p. if p = ''/home/op/env_keys_all.yaml'' then keys else [])\<rparr>"

text \<open>
  A world for the credential commands: one environment \<open>dev\<close>, an operator who types
  \<open>admin\<close> (with a blank after it) and \<open>admin123\<close>, a registration endpoint that answers with
  the given status code, and a token endpoint that answers 200.
\<close>

definition example_cli_env :: "nat \<Rightarrow> cli_env" where
  "example_cli_env registrationStatus =
     \<lparr>MainConfigFilePath = ''/home/op/main_config.yaml'',
      EnvKeysAllFilePath = ''/home/op/env_keys_all.yaml'',
      MainConfigFileName = ''main_config.yaml'',
      ProjectName = ''apimcli'',
      LogPrefixInfo = ''[INFO]: '',
      LogPrefixWarning = ''[WARN]: '',
      LogPrefixError = ''[ERROR]: '',
      HeaderContentType = ''Content-Type'',
      HeaderAuthorization = ''Authorization'',
      HeaderAccept = ''Accept'',
      HeaderValueApplicationJSON = ''application/json'',
      HeaderValueAuthBasicPrefix = ''Basic'',
      HeaderValueAuthBearerPrefix = ''Bearer'',
      HeaderValueXWWWFormUrlEncoded = ''application/x-www-form-urlencoded'',
      DefaultTokenValidityPeriod = ''3600'',
      registrationBody = ''{registration}'',
      mainConfigFile = (\<lambda>p.
          if p = ''/home/op/main_config.yaml''
          then [(''dev'', \<lparr>APIManagerEndpoint = ''https://dev/api'',
                           RegistrationEndpoint = ''https://dev/register'',
                           TokenEndpoint = ''https://dev/token''\<rparr>)]
          else []),
      typedUsername = ''admin '',
      typedPassword = ''admin123'',
      http_POST = (\<lambda>url headers body.
          if url = ''https://dev/register''
          then Inr \<lparr>StatusCode = registrationStatus, Status = ''status'', Body = ''{client}'', Error = ''none''\<rparr>
          else if url = ''https://dev/token''
          then Inr \<lparr>StatusCode = 200, Status = ''200 OK'', Body = ''{token}'', Error = []\<rparr>
          else Inl ''connection refused''),
      json_Unmarshal_RegistrationResponse = (\<lambda>b.
          if b = ''{client}'' then ((''id-1'', ''secret-1''), None)
          else (([], []), Some ''unexpected end of JSON input'')),
      json_Unmarshal_map = (\<lambda>b. if b = ''{token}'' then [(''access_token'', ''token-1'')] else []),
      StdEncoding_EncodeToString = (\<lambda>x. ''b64('' @ x @ '')''),
      GetMD5Hash = (\<lambda>x. ''md5('' @ x @ '')''),
      Encrypt = (\<lambda>k x. ''enc('' @ k @ '','' @ x @ '')''),
      Decrypt = (\<lambda>k x. ''dec('' @ k @ '','' @ x @ '')'')\<rparr>"


section \<open>Facts used for evaluation\<close>

text \<open>The definitions that the evaluation of a run of the secret commands on a concrete
  world unfolds.\<close>

lemmas go_string_defs =
  TrimSpace_def spaceWidth_def asciiSpace_def spaceRunes_def equalFoldASCII_def lookup_def

lemmas mi_defs =
  EncryptSecrets_def readPropertiesFromFile_def getEncryptionKey_def readKeyStore_def
  assert_rsa_PrivateKey_def getPlainTextSecrets_def IsFile_def IsK8_def IsPKCS1Encryption_def
  encrypt_def encryptOAEP_def encryptPKCS1v15_def emit_def
  printSecretsToYamlFile_def printSecretsToPropertiesFile_def getSecretFilePath_def
  CreateDirIfNotExist_def WriteConfigFile_def WritePropertiesToFile_def HandleErrorAndExit_def
  marshal_k8sSecretConfig_def

lemmas mi_example_defs =
  example_mi_env_def example_config_def example_file_config_def example_state_def
  example_key_def example_keystore_properties_def

section \<open>Case folding\<close>

text \<open>On an ASCII string, \<open>EqualFold\<close> is equality after lowering the letters.\<close>

lemma of_char_toLowerASCII:
  "(of_char (toLowerASCII c) :: nat) =
     (if (65 :: nat) \<le> of_char c \<and> (of_char c :: nat) \<le> 90 then of_char c + 32 else of_char c)"
  by (simp add: toLowerASCII_def)

lemma equalFoldASCII_lower:
  "equalFoldASCII c d = (toLowerASCII c = toLowerASCII d)"
proof -
  have "(toLowerASCII c = toLowerASCII d) =
          ((of_char (toLowerASCII c) :: nat) = of_char (toLowerASCII d))"
    by simp
  also have "\<dots> = equalFoldASCII c d"
  proof -
    have eq: "(d = c) = ((of_char d :: nat) = of_char c)" by simp
    show ?thesis
      unfolding of_char_toLowerASCII equalFoldASCII_def Let_def eq
      by (simp only: if_distrib[of of_char] cong: if_cong) presburger
  qed
  finally show ?thesis by simp
qed

lemma EqualFold_ascii:
  "\<forall>c \<in> set s. (of_char c :: nat) < 128 \<Longrightarrow>
   EqualFold s t = (map toLowerASCII s = map toLowerASCII t)"
proof (induction s arbitrary: t)
  case Nil
  then show ?case by auto
next
  case (Cons c s)
  show ?case
  proof (cases t)
    case Nil
    then show ?thesis by simp
  next
    case (Cons d t')
    with Cons.prems Cons.IH[of t'] show ?thesis
      by (simp add: equalFoldASCII_lower)
  qed
qed

section \<open>The secret pipeline, stage by stage\<close>

text \<open>Each cipher makes one library call, records it, and advances the random source; its
  result is the base64 text of the ciphertext, or the error of the library.\<close>

lemma encryptOAEP_step:
  "encryptOAEP w key p t =
     (map_sum id (base64_EncodeToString w) (rsa_EncryptOAEP w SHA1 (rand_Reader t) key p None),
      t\<lparr>trace := trace t @ [EncryptOAEP_call SHA1 (rand_Reader t) key p None],
        rand_Reader := Suc (rand_Reader t)\<rparr>)"
  by (simp add: encryptOAEP_def emit_def Let_def split: sum.splits)

lemma encryptPKCS1v15_step:
  "encryptPKCS1v15 w key p t =
     (map_sum id (base64_EncodeToString w) (rsa_EncryptPKCS1v15 w (rand_Reader t) key p),
      t\<lparr>trace := trace t @ [EncryptPKCS1v15_call (rand_Reader t) key p],
        rand_Reader := Suc (rand_Reader t)\<rparr>)"
  by (simp add: encryptPKCS1v15_def emit_def Let_def split: sum.splits)

text \<open>
  The loop of \<open>encrypt\<close>, for any cipher \<open>f\<close> of that shape (\<open>c\<close> the library call, \<open>ev\<close>
  its event): it adds only events of the cipher and leaves the keys files alone, and when the
  library call fails for some element, the loop ends with the error of the first element
  whose call fails.
\<close>

lemma encrypt_loop_events:
  assumes F: "\<And>p t. f key p t =
                (map_sum id enc (c (rand_Reader t) p),
                 t\<lparr>trace := trace t @ [ev (rand_Reader t) p], rand_Reader := Suc (rand_Reader t)\<rparr>)"
  shows "\<exists>evs. trace (snd (encrypt_loop key xs f acc s)) = trace s @ evs \<and>
               (\<forall>x \<in> set evs. \<exists>r p. x = ev r p) \<and>
               keysFile (snd (encrypt_loop key xs f acc s)) = keysFile s"
proof (induction xs arbitrary: acc s)
  case Nil
  show ?case by simp
next
  case (Cons a xs)
  obtain al plainText where a: "a = (al, plainText)" by (cases a)
  let ?t = "s\<lparr>trace := trace s @ [ev (rand_Reader s) plainText], rand_Reader := Suc (rand_Reader s)\<rparr>"
  show ?case
  proof (cases "c (rand_Reader s) plainText")
    case (Inl e)
    then show ?thesis using a by (auto simp: F)
  next
    case (Inr b)
    from Cons.IH[of "assign acc al (enc b)" ?t]
    obtain evs where "trace (snd (encrypt_loop key xs f (assign acc al (enc b)) ?t)) = trace ?t @ evs"
      and "\<forall>x \<in> set evs. \<exists>r p. x = ev r p"
      and "keysFile (snd (encrypt_loop key xs f (assign acc al (enc b)) ?t)) = keysFile ?t"
      by blast
    then show ?thesis using a Inr
      by (intro exI[of _ "ev (rand_Reader s) plainText # evs"]) (auto simp: F)
  qed
qed

lemma encrypt_loop_first_failure:
  assumes F: "\<And>p t. f key p t =
                (map_sum id enc (c (rand_Reader t) p),
                 t\<lparr>trace := trace t @ [ev (rand_Reader t) p], rand_Reader := Suc (rand_Reader t)\<rparr>)"
  shows "i < length xs \<Longrightarrow> c (rand_Reader s + i) (snd (xs ! i)) = Inl e \<Longrightarrow>
         \<exists>j e'. j \<le> i \<and> c (rand_Reader s + j) (snd (xs ! j)) = Inl e' \<and>
                (\<forall>k<j. \<exists>b. c (rand_Reader s + k) (snd (xs ! k)) = Inr b) \<and>
                fst (encrypt_loop key xs f acc s) = Inl e'"
proof (induction xs arbitrary: i acc s)
  case Nil
  then show ?case by simp
next
  case (Cons a xs)
  obtain al plainText where a: "a = (al, plainText)" by (cases a)
  let ?t = "s\<lparr>trace := trace s @ [ev (rand_Reader s) plainText], rand_Reader := Suc (rand_Reader s)\<rparr>"
  show ?case
  proof (cases "c (rand_Reader s) plainText")
    case (Inl e0)
    then show ?thesis using a by (intro exI[of _ 0] exI[of _ e0]) (simp add: F)
  next
    case (Inr b)
    with Cons.prems a obtain i' where i: "i = Suc i'" by (cases i) auto
    with Cons.prems have "i' < length xs" and "c (rand_Reader ?t + i') (snd (xs ! i')) = Inl e"
      by simp_all
    from Cons.IH[OF this, of "assign acc al (enc b)"]
    obtain j e' where j: "j \<le> i'" "c (rand_Reader ?t + j) (snd (xs ! j)) = Inl e'"
      "\<forall>k<j. \<exists>b. c (rand_Reader ?t + k) (snd (xs ! k)) = Inr b"
      "fst (encrypt_loop key xs f (assign acc al (enc b)) ?t) = Inl e'"
      by blast
    have "\<forall>k<Suc j. \<exists>b. c (rand_Reader s + k) (snd ((a # xs) ! k)) = Inr b"
    proof (intro allI impI)
      fix k assume "k < Suc j"
      show "\<exists>b. c (rand_Reader s + k) (snd ((a # xs) ! k)) = Inr b"
      proof (cases k)
        case 0
        then show ?thesis using Inr a by simp
      next
        case (Suc k')
        with \<open>k < Suc j\<close> j(3) show ?thesis by simp
      qed
    qed
    with j i a Inr show ?thesis
      by (intro exI[of _ "Suc j"] exI[of _ e']) (simp add: F)
  qed
qed

lemma encrypt_OAEP_events:
  "\<exists>evs. trace (snd (encrypt key xs (encryptOAEP w) s)) = trace s @ evs \<and>
         (\<forall>x \<in> set evs. \<exists>r p. x = EncryptOAEP_call SHA1 r key p None) \<and>
         keysFile (snd (encrypt key xs (encryptOAEP w) s)) = keysFile s"
  unfolding encrypt_def
  by (rule encrypt_loop_events[where ev = "\<lambda>r p. EncryptOAEP_call SHA1 r key p None"])
     (rule encryptOAEP_step)

lemma encrypt_PKCS1v15_events:
  "\<exists>evs. trace (snd (encrypt key xs (encryptPKCS1v15 w) s)) = trace s @ evs \<and>
         (\<forall>x \<in> set evs. \<exists>r p. x = EncryptPKCS1v15_call r key p) \<and>
         keysFile (snd (encrypt key xs (encryptPKCS1v15 w) s)) = keysFile s"
  unfolding encrypt_def
  by (rule encrypt_loop_events[where ev = "\<lambda>r p. EncryptPKCS1v15_call r key p"])
     (rule encryptPKCS1v15_step)

lemma encrypt_PKCS1v15_first_failure:
  assumes "i < length xs"
      and "rsa_EncryptPKCS1v15 w (rand_Reader s + i) key (snd (xs ! i)) = Inl e"
  shows "\<exists>j e'. j \<le> i \<and> rsa_EncryptPKCS1v15 w (rand_Reader s + j) key (snd (xs ! j)) = Inl e' \<and>
                (\<forall>k<j. \<exists>b. rsa_EncryptPKCS1v15 w (rand_Reader s + k) key (snd (xs ! k)) = Inr b) \<and>
                fst (encrypt key xs (encryptPKCS1v15 w) s) = Inl e'"
  unfolding encrypt_def
  using encrypt_loop_first_failure
          [where f = "encryptPKCS1v15 w" and key = key and enc = "base64_EncodeToString w"
             and c = "\<lambda>r p. rsa_EncryptPKCS1v15 w r key p"
             and ev = "\<lambda>r p. EncryptPKCS1v15_call r key p",
           OF encryptPKCS1v15_step assms]
  by simp

lemma encrypt_OAEP_first_failure:
  assumes "i < length xs"
      and "rsa_EncryptOAEP w SHA1 (rand_Reader s + i) key (snd (xs ! i)) None = Inl e"
  shows "\<exists>j e'. j \<le> i \<and> rsa_EncryptOAEP w SHA1 (rand_Reader s + j) key (snd (xs ! j)) None = Inl e' \<and>
                (\<forall>k<j. \<exists>b. rsa_EncryptOAEP w SHA1 (rand_Reader s + k) key (snd (xs ! k)) None = Inr b) \<and>
                fst (encrypt key xs (encryptOAEP w) s) = Inl e'"
  unfolding encrypt_def
  using encrypt_loop_first_failure
          [where f = "encryptOAEP w" and key = key and enc = "base64_EncodeToString w"
             and c = "\<lambda>r p. rsa_EncryptOAEP w SHA1 r key p None"
             and ev = "\<lambda>r p. EncryptOAEP_call SHA1 r key p None",
           OF encryptOAEP_step assms]
  by simp

text \<open>When every call succeeds, the loop makes one call per element, in order, and returns
  the mapping of each alias to the encoded ciphertext (the aliases of a Go map are distinct).
  \<open>enumerate\<close> pairs each element with the state of the random source its call draws from.\<close>

lemma assign_fresh: "k \<notin> fst ` set m \<Longrightarrow> assign m k v = m @ [(k, v)]"
  by (induction m) auto

lemma encrypt_loop_success:
  assumes F: "\<And>p t. f key p t =
                (map_sum id enc (c (rand_Reader t) p),
                 t\<lparr>trace := trace t @ [ev (rand_Reader t) p], rand_Reader := Suc (rand_Reader t)\<rparr>)"
  shows "distinct (map fst xs) \<Longrightarrow> fst ` set acc \<inter> fst ` set xs = {} \<Longrightarrow>
         map (\<lambda>(r, ap). c r (snd ap)) (enumerate (rand_Reader s) xs) = map Inr cts \<Longrightarrow>
         encrypt_loop key xs f acc s =
           (Inr (acc @ map (\<lambda>(ap, ct). (fst ap, enc ct)) (zip xs cts)),
            s\<lparr>trace := trace s @ map (\<lambda>(r, ap). ev r (snd ap)) (enumerate (rand_Reader s) xs),
              rand_Reader := rand_Reader s + length xs\<rparr>)"
proof (induction xs arbitrary: acc s cts)
  case Nil
  then show ?case by simp
next
  case (Cons a xs)
  obtain al plainText where a: "a = (al, plainText)" by (cases a)
  let ?t = "s\<lparr>trace := trace s @ [ev (rand_Reader s) plainText], rand_Reader := Suc (rand_Reader s)\<rparr>"
  from Cons.prems(3) obtain ct cts' where cts: "cts = ct # cts'"
    and head: "c (rand_Reader s) plainText = Inr ct"
    and rest: "map (\<lambda>(r, ap). c r (snd ap)) (enumerate (rand_Reader ?t) xs) = map Inr cts'"
    unfolding a by (cases cts) auto
  have fresh: "al \<notin> fst ` set acc" using Cons.prems(2) a by auto
  have d: "distinct (map fst xs)" using Cons.prems(1) by simp
  have disj: "fst ` set (assign acc al (enc ct)) \<inter> fst ` set xs = {}"
    using Cons.prems(1,2) a fresh by (auto simp: assign_fresh)
  have "encrypt_loop key (a # xs) f acc s = encrypt_loop key xs f (assign acc al (enc ct)) ?t"
    using a head by (simp add: F)
  also have "\<dots> = (Inr (assign acc al (enc ct) @ map (\<lambda>(ap, ct). (fst ap, enc ct)) (zip xs cts')),
            ?t\<lparr>trace := trace ?t @ map (\<lambda>(r, ap). ev r (snd ap)) (enumerate (rand_Reader ?t) xs),
              rand_Reader := rand_Reader ?t + length xs\<rparr>)"
    by (rule Cons.IH[OF d disj rest])
  also have "\<dots> = (Inr (acc @ map (\<lambda>(ap, ct). (fst ap, enc ct)) (zip (a # xs) cts)),
            s\<lparr>trace := trace s @ map (\<lambda>(r, ap). ev r (snd ap)) (enumerate (rand_Reader s) (a # xs)),
              rand_Reader := rand_Reader s + length (a # xs)\<rparr>)"
    by (simp add: a cts assign_fresh[OF fresh])
  finally show ?case .
qed

lemma encrypt_PKCS1v15_success:
  assumes "distinct (map fst xs)"
      and "map (\<lambda>(r, al, plainText). rsa_EncryptPKCS1v15 w r key plainText)
             (enumerate (rand_Reader s) xs) = map Inr cts"
  shows "encrypt key xs (encryptPKCS1v15 w) s =
           (Inr (map (\<lambda>((al, plainText), ct). (al, base64_EncodeToString w ct)) (zip xs cts)),
            s\<lparr>trace := trace s @ map (\<lambda>(r, al, plainText). EncryptPKCS1v15_call r key plainText)
                                     (enumerate (rand_Reader s) xs),
              rand_Reader := rand_Reader s + length xs\<rparr>)"
  unfolding encrypt_def
  using encrypt_loop_success
          [where f = "encryptPKCS1v15 w" and key = key and enc = "base64_EncodeToString w"
             and c = "\<lambda>r p. rsa_EncryptPKCS1v15 w r key p"
             and ev = "\<lambda>r p. EncryptPKCS1v15_call r key p"
             and xs = xs and acc = "[]" and s = s and cts = cts,
           OF encryptPKCS1v15_step assms(1)]
    assms(2)
  by (simp add: case_prod_unfold)

lemma encrypt_OAEP_success:
  assumes "distinct (map fst xs)"
      and "map (\<lambda>(r, al, plainText). rsa_EncryptOAEP w SHA1 r key plainText None)
             (enumerate (rand_Reader s) xs) = map Inr cts"
  shows "encrypt key xs (encryptOAEP w) s =
           (Inr (map (\<lambda>((al, plainText), ct). (al, base64_EncodeToString w ct)) (zip xs cts)),
            s\<lparr>trace := trace s @ map (\<lambda>(r, al, plainText). EncryptOAEP_call SHA1 r key plainText None)
                                     (enumerate (rand_Reader s) xs),
              rand_Reader := rand_Reader s + length xs\<rparr>)"
  unfolding encrypt_def
  using encrypt_loop_success
          [where f = "encryptOAEP w" and key = key and enc = "base64_EncodeToString w"
             and c = "\<lambda>r p. rsa_EncryptOAEP w SHA1 r key p None"
             and ev = "\<lambda>r p. EncryptOAEP_call SHA1 r key p None"
             and xs = xs and acc = "[]" and s = s and cts = cts,
           OF encryptOAEP_step assms(1)]
    assms(2)
  by (simp add: case_prod_unfold)

text \<open>The three output forms, by what they add to the trace.\<close>

lemma printSecretsToConsole_trace:
  "printSecretsToConsole secrets s =
     s\<lparr>trace := trace s @ map (\<lambda>(alias, secret). Println (alias @ '' : '' @ secret)) secrets\<rparr>"
  by (induction secrets arbitrary: s) (auto simp: emit_def)

lemma printSecretsToYamlFile_cases:
  "printSecretsToYamlFile w secrets s =
     (let dir = filepath_Join w (os_Getwd w) ''security'';
          path = filepath_Join w dir ''wso2mi-secrets.yaml'';
          doc = marshal_k8sSecretConfig
                  \<lparr>APIVerion = ''v1'', Kind = ''Secret'',
                   MetaData = \<lparr>Name = ''wso2misecret'', Namespace = ''default''\<rparr>,
                   StringData = secrets, Type = ''Opaque''\<rparr>
      in case ioutil_WriteFile w path doc of
           Some err \<Rightarrow>
             (Exited 1,
              s\<lparr>trace := trace s @ [CreateDirIfNotExist_call dir,
                                     Fatal ''Unable to write configuration to file.'' err]\<rparr>)
         | None \<Rightarrow>
             (Returned (),
              s\<lparr>trace := trace s @
                  [CreateDirIfNotExist_call dir, WriteConfigFile_call doc path,
                   Println (''Kubernetes secret file created in '' @ path @
                            '' with default name and namespace''),
                   Println ''You can change the default values as required before applying.'']\<rparr>))"
  by (simp add: printSecretsToYamlFile_def getSecretFilePath_def CreateDirIfNotExist_def
        WriteConfigFile_def HandleErrorAndExit_def emit_def Let_def split: option.splits)

lemma printSecretsToPropertiesFile_cases:
  "printSecretsToPropertiesFile w secrets s =
     (let dir = filepath_Join w (os_Getwd w) ''security'';
          path = filepath_Join w dir ''wso2mi-secrets.properties''
      in case os_Create w path of
           Some err \<Rightarrow>
             (Exited 1,
              s\<lparr>trace := trace s @ [CreateDirIfNotExist_call dir, Fatal ''Unable to create file.'' err]\<rparr>)
         | None \<Rightarrow>
             (case props_Write w secrets path of
                Some err \<Rightarrow>
                  (Exited 1,
                   s\<lparr>trace := trace s @ [CreateDirIfNotExist_call dir,
                                          Fatal ''Unable to write properties to file.'' err]\<rparr>)
              | None \<Rightarrow>
                  (Returned (),
                   s\<lparr>trace := trace s @
                       [CreateDirIfNotExist_call dir, PropertiesWritten secrets path,
                        Println (''Secret properties file created in '' @ path)]\<rparr>)))"
  by (simp add: printSecretsToPropertiesFile_def getSecretFilePath_def CreateDirIfNotExist_def
        WritePropertiesToFile_def HandleErrorAndExit_def emit_def Let_def split: option.splits)

lemma printSecretsToYamlFile_events:
  "\<exists>evs. trace (snd (printSecretsToYamlFile w secrets s)) = trace s @ evs \<and>
         (\<forall>x \<in> set evs. \<not> isCryptoCall x)"
  by (simp add: printSecretsToYamlFile_cases Let_def split: option.splits)

lemma printSecretsToPropertiesFile_events:
  "\<exists>evs. trace (snd (printSecretsToPropertiesFile w secrets s)) = trace s @ evs \<and>
         (\<forall>x \<in> set evs. \<not> isCryptoCall x)"
  by (simp add: printSecretsToPropertiesFile_cases Let_def split: option.splits)

lemma printSecretsToConsole_events:
  "\<exists>evs. trace (printSecretsToConsole secrets s) = trace s @ evs \<and>
         (\<forall>x \<in> set evs. \<not> isCryptoCall x)"
  by (auto simp: printSecretsToConsole_trace)

lemma output_stage_events:
  "\<exists>evs. trace (snd (if IsK8 out then
                        (case printSecretsToYamlFile w m s1 of
                           (Returned u, s2) \<Rightarrow> (Returned None, s2)
                         | (Exited n, s2) \<Rightarrow> (Exited n, s2)
                         | (Panicked p, s2) \<Rightarrow> (Panicked p, s2))
                      else if IsFile out then
                        (case printSecretsToPropertiesFile w m s1 of
                           (Returned u, s2) \<Rightarrow> (Returned None, s2)
                         | (Exited n, s2) \<Rightarrow> (Exited n, s2)
                         | (Panicked p, s2) \<Rightarrow> (Panicked p, s2))
                      else (Returned None :: string option outcome, printSecretsToConsole m s1))) = trace s1 @ evs \<and>
         (\<forall>x \<in> set evs. \<not> isCryptoCall x)"
proof -
  have snd_case: "\<And>r. snd (case r of
                           (Returned u, s2) \<Rightarrow> (Returned None :: string option outcome, s2)
                         | (Exited n, s2) \<Rightarrow> (Exited n, s2)
                         | (Panicked p, s2) \<Rightarrow> (Panicked p, s2)) = snd (r :: unit outcome \<times> state)"
    by (simp split: prod.splits outcome.splits)
  show ?thesis
    using printSecretsToYamlFile_events[of w m s1] printSecretsToPropertiesFile_events[of w m s1]
      printSecretsToConsole_events[of m s1]
    by (simp add: snd_case)
qed

text \<open>The output stage of \<open>EncryptSecrets\<close>, written out.\<close>

lemma output_stage_cases:
  "(if IsK8 out then
      (case printSecretsToYamlFile w m s1 of
         (Returned u, s2) \<Rightarrow> (Returned None, s2)
       | (Exited n, s2) \<Rightarrow> (Exited n, s2)
       | (Panicked p, s2) \<Rightarrow> (Panicked p, s2))
    else if IsFile out then
      (case printSecretsToPropertiesFile w m s1 of
         (Returned u, s2) \<Rightarrow> (Returned None, s2)
       | (Exited n, s2) \<Rightarrow> (Exited n, s2)
       | (Panicked p, s2) \<Rightarrow> (Panicked p, s2))
    else (Returned None :: string option outcome, printSecretsToConsole m s1)) =
   (let dir = filepath_Join w (os_Getwd w) ''security'';
        yamlPath = filepath_Join w dir ''wso2mi-secrets.yaml'';
        propertiesPath = filepath_Join w dir ''wso2mi-secrets.properties'';
        manifest = marshal_k8sSecretConfig
                     \<lparr>APIVerion = ''v1'', Kind = ''Secret'',
                      MetaData = \<lparr>Name = ''wso2misecret'', Namespace = ''default''\<rparr>,
                      StringData = m, Type = ''Opaque''\<rparr>
    in if EqualFold out ''k8'' then
         (case ioutil_WriteFile w yamlPath manifest of
            Some err \<Rightarrow>
              (Exited 1,
               s1\<lparr>trace := trace s1 @ [CreateDirIfNotExist_call dir,
                                        Fatal ''Unable to write configuration to file.'' err]\<rparr>)
          | None \<Rightarrow>
              (Returned None,
               s1\<lparr>trace := trace s1 @
                    [CreateDirIfNotExist_call dir, WriteConfigFile_call manifest yamlPath,
                     Println (''Kubernetes secret file created in '' @ yamlPath @
                              '' with default name and namespace''),
                     Println ''You can change the default values as required before applying.'']\<rparr>))
       else if EqualFold out ''file'' then
         (case os_Create w propertiesPath of
            Some err \<Rightarrow>
              (Exited 1,
               s1\<lparr>trace := trace s1 @ [CreateDirIfNotExist_call dir,
                                        Fatal ''Unable to create file.'' err]\<rparr>)
          | None \<Rightarrow>
              (case props_Write w m propertiesPath of
                 Some err \<Rightarrow>
                   (Exited 1,
                    s1\<lparr>trace := trace s1 @ [CreateDirIfNotExist_call dir,
                                             Fatal ''Unable to write properties to file.'' err]\<rparr>)
               | None \<Rightarrow>
                   (Returned None,
                    s1\<lparr>trace := trace s1 @
                         [CreateDirIfNotExist_call dir, PropertiesWritten m propertiesPath,
                          Println (''Secret properties file created in '' @ propertiesPath)]\<rparr>)))
       else
         (Returned None,
          s1\<lparr>trace := trace s1 @ map (\<lambda>(al, secret). Println (al @ '' : '' @ secret)) m\<rparr>))"
  by (simp add: printSecretsToYamlFile_cases printSecretsToPropertiesFile_cases
        printSecretsToConsole_trace IsK8_def IsFile_def Let_def split: option.splits)

text \<open>\<open>EncryptSecrets\<close> once the keystore properties, the key and the plaintexts are there:
  encryption with the selected cipher, then output. A run that does not get that far leaves
  the state as it was.\<close>

lemma EncryptSecrets_stages:
  assumes "readPropertiesFromFile w keyStorePropertiesFile = Returned keyStoreConfigMap"
      and "getEncryptionKey w keyStoreConfigMap = Returned (Inr encryptionKey)"
      and "getPlainTextSecrets w secretConfig = Returned plainTextSecrets"
  shows "EncryptSecrets w keyStorePropertiesFile secretConfig s =
           (case (if IsPKCS1Encryption (Algorithm secretConfig)
                  then encrypt encryptionKey plainTextSecrets (encryptPKCS1v15 w) s
                  else encrypt encryptionKey plainTextSecrets (encryptOAEP w) s) of
              (Inl err, s1) \<Rightarrow> (Returned (Some err), s1)
            | (Inr encryptedSecrets, s1) \<Rightarrow>
                (if IsK8 (OutputType secretConfig) then
                   (case printSecretsToYamlFile w encryptedSecrets s1 of
                      (Returned u, s2) \<Rightarrow> (Returned None, s2)
                    | (Exited n, s2) \<Rightarrow> (Exited n, s2)
                    | (Panicked p, s2) \<Rightarrow> (Panicked p, s2))
                 else if IsFile (OutputType secretConfig) then
                   (case printSecretsToPropertiesFile w encryptedSecrets s1 of
                      (Returned u, s2) \<Rightarrow> (Returned None, s2)
                    | (Exited n, s2) \<Rightarrow> (Exited n, s2)
                    | (Panicked p, s2) \<Rightarrow> (Panicked p, s2))
                 else (Returned None, printSecretsToConsole encryptedSecrets s1)))"
  unfolding EncryptSecrets_def by (simp only: assms outcome.case sum.case)

lemma EncryptSecrets_early:
  assumes "\<nexists>keyStoreConfigMap encryptionKey plainTextSecrets.
             readPropertiesFromFile w keyStorePropertiesFile = Returned keyStoreConfigMap \<and>
             getEncryptionKey w keyStoreConfigMap = Returned (Inr encryptionKey) \<and>
             getPlainTextSecrets w secretConfig = Returned plainTextSecrets"
  shows "snd (EncryptSecrets w keyStorePropertiesFile secretConfig s) = s"
  using assms unfolding EncryptSecrets_def
  by (auto split: outcome.splits sum.splits)

section \<open>Validation of secret values\<close>

text \<open>
  C1 (as stated): for every secret mapping with a value that is empty after trimming,
  \<open>EncryptSecrets\<close> raises a validation error with a per-key diagnostic and aborts before
  any cryptographic call. \<open>EncryptSecrets\<close> does not call the validator: given the alias
  \<open>db\<close> with a secret of three blanks, which trims to the empty string, it encrypts the
  blanks with OAEP, prints the result and returns \<open>nil\<close>.
\<close>

theorem EncryptSecrets_blank_secret_counterexample:
  "TrimSpace ''   '' = [] \<and>
   fst (EncryptSecrets (example_mi_env ''pkcs8-rsa'') ''keystore-info.properties''
          (example_config ''console'' ''RSA/ECB/OAEPWithSHA1AndMGF1Padding'' ''   '')
          (example_state [])) = Returned None \<and>
   trace (snd (EncryptSecrets (example_mi_env ''pkcs8-rsa'') ''keystore-info.properties''
          (example_config ''console'' ''RSA/ECB/OAEPWithSHA1AndMGF1Padding'' ''   '')
          (example_state []))) =
     [EncryptOAEP_call SHA1 0 example_key ''   '' None, Println ''db : b64(oaep:   )'']"
  by (simp add: go_string_defs mi_defs mi_example_defs)

text \<open>
  C1 (amended): the validator \<open>IsMapWithNonEmptyValues\<close>, which a caller of \<open>EncryptSecrets\<close>
  has to apply itself, rejects every mapping that has a value empty after trimming: it
  returns \<open>false\<close>, and all it does is print \<open>Invalid input for\<close> and the key of such a
  value, so no cryptographic call is made.
\<close>

theorem IsMapWithNonEmptyValues_rejects_blank_value:
  assumes "\<exists>(k, v) \<in> set inputs. TrimSpace v = []"
  shows "\<exists>k v. (k, v) \<in> set inputs \<and> TrimSpace v = [] \<and>
           IsMapWithNonEmptyValues inputs s =
             (False, s\<lparr>trace := trace s @ [Println (''Invalid input for '' @ k)]\<rparr>)"
  using assms
proof (induction inputs)
  case Nil
  then show ?case by simp
next
  case (Cons a inputs)
  obtain key input where a: "a = (key, input)" by (cases a)
  show ?case
  proof (cases "TrimSpace input = []")
    case True
    then show ?thesis using a by (auto simp: emit_def)
  next
    case False
    with Cons.prems a have "\<exists>(k, v) \<in> set inputs. TrimSpace v = []" by auto
    from Cons.IH[OF this] False a show ?thesis by auto
  qed
qed

theorem IsMapWithNonEmptyValues_rejects_blank_value_witness:
  "(\<exists>(k, v) \<in> set [(''db'', ''s3cr3t''), (''queue'', ''  '')]. TrimSpace v = []) \<and>
   IsMapWithNonEmptyValues [(''db'', ''s3cr3t''), (''queue'', ''  '')] (example_state []) =
     (False, (example_state [])\<lparr>trace := [Println ''Invalid input for queue'']\<rparr>)"
  using IsMapWithNonEmptyValues_rejects_blank_value
          [of "[(''db'', ''s3cr3t''), (''queue'', ''  '')]" "example_state []"]
  by (simp add: go_string_defs emit_def example_state_def)

section \<open>The encryption key\<close>

text \<open>
  C6: when the private-key entry fails PKCS#8 parsing or is not an RSA key, \<open>getEncryptionKey\<close>
  is to return the \<open>Parsing Key Entry\<close> error to its caller rather than crash. The code
  asserts \<open>key.(*rsa.PrivateKey)\<close> before it tests \<open>err\<close>: with an entry that does not parse
  (\<open>key\<close> is \<open>nil\<close>) and with an entry that holds an ECDSA key, \<open>getEncryptionKey\<close> panics, and
  so does \<open>EncryptSecrets\<close>.
\<close>

theorem getEncryptionKey_panics_on_unusable_key:
  "x509_ParsePKCS8PrivateKey (example_mi_env ''garbage'') ''garbage'' =
     Inl ''x509: failed to parse private key'' \<and>
   getEncryptionKey (example_mi_env ''garbage'') example_keystore_properties =
     Panicked ''interface conversion: interface {} is nil, not *rsa.PrivateKey'' \<and>
   x509_ParsePKCS8PrivateKey (example_mi_env ''pkcs8-ec'') ''pkcs8-ec'' = Inr ECDSAKey \<and>
   getEncryptionKey (example_mi_env ''pkcs8-ec'') example_keystore_properties =
     Panicked ''interface conversion: interface {} is *ecdsa.PrivateKey, not *rsa.PrivateKey'' \<and>
   fst (EncryptSecrets (example_mi_env ''garbage'') ''keystore-info.properties''
          (example_config ''console'' ''RSA/ECB/PKCS1Padding'' ''s3cr3t'') (example_state [])) =
     Panicked ''interface conversion: interface {} is nil, not *rsa.PrivateKey''"
  by (simp add: go_string_defs mi_defs mi_example_defs)

text \<open>No input makes \<open>getEncryptionKey\<close> return the \<open>Parsing Key Entry\<close> error.\<close>

lemma getEncryptionKey_never_reports_parsing:
  "getEncryptionKey w keyStoreConfigMap \<noteq> Returned (Inl (''Parsing Key Entry: '' @ e))"
  by (auto simp: getEncryptionKey_def assert_rsa_PrivateKey_def Let_def
           split: sum.splits option.splits pkcs8_key.splits)

section \<open>Selection of the cipher\<close>

text \<open>In every run of \<open>EncryptSecrets\<close>, whatever its outcome, each cryptographic call among
  the events the run adds is a call of the cipher the label selects.\<close>

lemma EncryptSecrets_cipher_calls:
  "\<exists>evs. trace (snd (EncryptSecrets w keyStorePropertiesFile secretConfig s)) = trace s @ evs \<and>
         (\<forall>x \<in> set evs. isCryptoCall x \<longrightarrow>
            (if EqualFold (Algorithm secretConfig) ''RSA/ECB/PKCS1Padding''
             then \<exists>r k p. x = EncryptPKCS1v15_call r k p
             else \<exists>r k p. x = EncryptOAEP_call SHA1 r k p None))"
proof -
  let ?run = "EncryptSecrets w keyStorePropertiesFile secretConfig s"
  define P where "P = (\<lambda>x. if EqualFold (Algorithm secretConfig) ''RSA/ECB/PKCS1Padding''
                 then \<exists>r k p. x = EncryptPKCS1v15_call r k p
                 else \<exists>r k p. x = EncryptOAEP_call SHA1 r k p None)"
  have "\<exists>evs. trace (snd ?run) = trace s @ evs \<and> (\<forall>x \<in> set evs. isCryptoCall x \<longrightarrow> P x)"
  proof (cases "\<exists>keyStoreConfigMap encryptionKey plainTextSecrets.
             readPropertiesFromFile w keyStorePropertiesFile = Returned keyStoreConfigMap \<and>
             getEncryptionKey w keyStoreConfigMap = Returned (Inr encryptionKey) \<and>
             getPlainTextSecrets w secretConfig = Returned plainTextSecrets")
    case False
    then have "snd ?run = s" by (rule EncryptSecrets_early)
    then show ?thesis by simp
  next
    case True
    then obtain keyStoreConfigMap encryptionKey plainTextSecrets where
      loaded: "readPropertiesFromFile w keyStorePropertiesFile = Returned keyStoreConfigMap"
        "getEncryptionKey w keyStoreConfigMap = Returned (Inr encryptionKey)"
        "getPlainTextSecrets w secretConfig = Returned plainTextSecrets"
      by blast
    define enc where "enc = (if IsPKCS1Encryption (Algorithm secretConfig)
                      then encrypt encryptionKey plainTextSecrets (encryptPKCS1v15 w) s
                      else encrypt encryptionKey plainTextSecrets (encryptOAEP w) s)"
    define out where "out = (\<lambda>encryptedSecrets s1.
                (if IsK8 (OutputType secretConfig) then
                   (case printSecretsToYamlFile w encryptedSecrets s1 of
                      (Returned u, s2) \<Rightarrow> (Returned None, s2)
                    | (Exited n, s2) \<Rightarrow> (Exited n, s2)
                    | (Panicked p, s2) \<Rightarrow> (Panicked p, s2))
                 else if IsFile (OutputType secretConfig) then
                   (case printSecretsToPropertiesFile w encryptedSecrets s1 of
                      (Returned u, s2) \<Rightarrow> (Returned None, s2)
                    | (Exited n, s2) \<Rightarrow> (Exited n, s2)
                    | (Panicked p, s2) \<Rightarrow> (Panicked p, s2))
                 else (Returned None :: string option outcome, printSecretsToConsole encryptedSecrets s1)))"
    have run: "?run = (case enc of (Inl err, s1) \<Rightarrow> (Returned (Some err), s1)
                       | (Inr encryptedSecrets, s1) \<Rightarrow> out encryptedSecrets s1)"
      unfolding enc_def out_def by (rule EncryptSecrets_stages[OF loaded])
    obtain res s1 where enc: "enc = (res, s1)" by (cases enc)
    have "\<exists>evs. trace (snd enc) = trace s @ evs \<and> (\<forall>x \<in> set evs. P x)"
    proof (cases "EqualFold (Algorithm secretConfig) ''RSA/ECB/PKCS1Padding''")
      case True
      from encrypt_PKCS1v15_events[of encryptionKey plainTextSecrets w s]
      obtain evs where evs: "trace (snd (encrypt encryptionKey plainTextSecrets (encryptPKCS1v15 w) s)) = trace s @ evs"
        "\<forall>x \<in> set evs. \<exists>r p. x = EncryptPKCS1v15_call r encryptionKey p"
        by blast
      from evs(2) True have "\<forall>x \<in> set evs. P x" unfolding P_def by (simp only: if_True) blast
      moreover from True have "enc = encrypt encryptionKey plainTextSecrets (encryptPKCS1v15 w) s"
        by (simp add: enc_def IsPKCS1Encryption_def)
      ultimately show ?thesis using evs(1) by blast
    next
      case False
      from encrypt_OAEP_events[of encryptionKey plainTextSecrets w s]
      obtain evs where evs: "trace (snd (encrypt encryptionKey plainTextSecrets (encryptOAEP w) s)) = trace s @ evs"
        "\<forall>x \<in> set evs. \<exists>r p. x = EncryptOAEP_call SHA1 r encryptionKey p None"
        by blast
      from evs(2) False have "\<forall>x \<in> set evs. P x" unfolding P_def by (simp only: if_False) blast
      moreover from False have "enc = encrypt encryptionKey plainTextSecrets (encryptOAEP w) s"
        by (simp add: enc_def IsPKCS1Encryption_def)
      ultimately show ?thesis using evs(1) by blast
    qed
    then obtain evs1 where evs1: "trace s1 = trace s @ evs1" "\<forall>x \<in> set evs1. P x"
      using enc by auto
    show ?thesis
    proof (cases res)
      case (Inl err)
      with run enc have "snd ?run = s1" by simp
      with evs1 show ?thesis by auto
    next
      case (Inr encryptedSecrets)
      have "\<exists>evs. trace (snd (out encryptedSecrets s1)) = trace s1 @ evs \<and> (\<forall>x \<in> set evs. \<not> isCryptoCall x)"
        unfolding out_def by (rule output_stage_events)
      then obtain evs2 where evs2: "trace (snd (out encryptedSecrets s1)) = trace s1 @ evs2"
        "\<forall>x \<in> set evs2. \<not> isCryptoCall x"
        by blast
      from run enc Inr evs2(1) evs1(1)
      have "trace (snd ?run) = trace s @ (evs1 @ evs2)" by simp
      moreover have "\<forall>x \<in> set (evs1 @ evs2). isCryptoCall x \<longrightarrow> P x"
        using evs1(2) evs2(2) by auto
      ultimately show ?thesis by blast
    qed
  qed
  then show ?thesis
    unfolding P_def .
qed

text \<open>
  C8: for every algorithm label, \<open>EncryptSecrets\<close> selects PKCS1v15 if and only if the label
  equals \<open>RSA/ECB/PKCS1Padding\<close> up to letter case (\<open>strings.EqualFold\<close>), and OAEP with SHA-1,
  no label and base64 output for every other label. Three facts, for every label.
  First, a whole run: when the keystore properties, the key and the plaintext mapping load,
  and the library calls of the selected cipher (\<open>rsa.EncryptPKCS1v15\<close> if the label matches,
  \<open>rsa.EncryptOAEP\<close> with SHA-1 and no label if not), made on the plaintext of each alias in
  turn with the loaded key, return the ciphertexts \<open>cipherTexts\<close>, then \<open>EncryptSecrets\<close> makes
  exactly these calls, one per alias, and what it emits in each of the three output forms is
  the mapping of each alias to the base64 text of its ciphertext. Second, in every run,
  failing ones too, each cryptographic call is a call of the selected cipher. Third, for an
  ASCII label the test of the code is equality with \<open>RSA/ECB/PKCS1Padding\<close> after lowering the
  letters.
\<close>

theorem EncryptSecrets_selects_scheme:
  fixes w :: mi_env and secretConfig :: SecretConfig and encryptionKey :: rsa_PublicKey
    and s s1 :: state and plainTextSecrets encryptedSecrets :: gomap and cipherTexts :: "string list"
    and pkcs1 :: bool and calls :: "event list" and dir yamlPath propertiesPath :: string
    and manifest :: yaml
  defines "pkcs1 \<equiv> EqualFold (Algorithm secretConfig) ''RSA/ECB/PKCS1Padding''"
      and "calls \<equiv> map (\<lambda>(r, al, plainText).
                           if pkcs1 then EncryptPKCS1v15_call r encryptionKey plainText
                           else EncryptOAEP_call SHA1 r encryptionKey plainText None)
                        (enumerate (rand_Reader s) plainTextSecrets)"
      and "encryptedSecrets \<equiv> map (\<lambda>((al, plainText), cipherText).
                                      (al, base64_EncodeToString w cipherText))
                                   (zip plainTextSecrets cipherTexts)"
      and "s1 \<equiv> s\<lparr>trace := trace s @ calls,
                    rand_Reader := rand_Reader s + length plainTextSecrets\<rparr>"
      and "dir \<equiv> filepath_Join w (os_Getwd w) ''security''"
      and "yamlPath \<equiv> filepath_Join w dir ''wso2mi-secrets.yaml''"
      and "propertiesPath \<equiv> filepath_Join w dir ''wso2mi-secrets.properties''"
      and "manifest \<equiv>
             YMap [(''apiVersion'', YStr ''v1''),
                   (''kind'', YStr ''Secret''),
                   (''metadata'', YMap [(''name'', YStr ''wso2misecret''),
                                        (''namespace'', YStr ''default'')]),
                   (''stringData'', YMap (map (\<lambda>(al, secret). (al, YStr secret)) encryptedSecrets)),
                   (''type'', YStr ''Opaque'')]"
  shows
    "(readPropertiesFromFile w keyStorePropertiesFile = Returned keyStoreConfigMap \<and>
      getEncryptionKey w keyStoreConfigMap = Returned (Inr encryptionKey) \<and>
      getPlainTextSecrets w secretConfig = Returned plainTextSecrets \<and>
      distinct (map fst plainTextSecrets) \<and>
      map (\<lambda>(r, al, plainText).
             if pkcs1 then rsa_EncryptPKCS1v15 w r encryptionKey plainText
             else rsa_EncryptOAEP w SHA1 r encryptionKey plainText None)
          (enumerate (rand_Reader s) plainTextSecrets) = map Inr cipherTexts \<longrightarrow>
      EncryptSecrets w keyStorePropertiesFile secretConfig s =
        (if EqualFold (OutputType secretConfig) ''k8'' then
           (case ioutil_WriteFile w yamlPath manifest of
              Some err \<Rightarrow>
                (Exited 1,
                 s1\<lparr>trace := trace s1 @ [CreateDirIfNotExist_call dir,
                                          Fatal ''Unable to write configuration to file.'' err]\<rparr>)
            | None \<Rightarrow>
                (Returned None,
                 s1\<lparr>trace := trace s1 @
                      [CreateDirIfNotExist_call dir, WriteConfigFile_call manifest yamlPath,
                       Println (''Kubernetes secret file created in '' @ yamlPath @
                                '' with default name and namespace''),
                       Println ''You can change the default values as required before applying.'']\<rparr>))
         else if EqualFold (OutputType secretConfig) ''file'' then
           (case os_Create w propertiesPath of
              Some err \<Rightarrow>
                (Exited 1,
                 s1\<lparr>trace := trace s1 @ [CreateDirIfNotExist_call dir,
                                          Fatal ''Unable to create file.'' err]\<rparr>)
            | None \<Rightarrow>
                (case props_Write w encryptedSecrets propertiesPath of
                   Some err \<Rightarrow>
                     (Exited 1,
                      s1\<lparr>trace := trace s1 @ [CreateDirIfNotExist_call dir,
                                               Fatal ''Unable to write properties to file.'' err]\<rparr>)
                 | None \<Rightarrow>
                     (Returned None,
                      s1\<lparr>trace := trace s1 @
                           [CreateDirIfNotExist_call dir,
                            PropertiesWritten encryptedSecrets propertiesPath,
                            Println (''Secret properties file created in '' @ propertiesPath)]\<rparr>)))
         else
           (Returned None,
            s1\<lparr>trace := trace s1 @
                 map (\<lambda>(al, secret). Println (al @ '' : '' @ secret)) encryptedSecrets\<rparr>))) \<and>
     (\<exists>evs. trace (snd (EncryptSecrets w keyStorePropertiesFile secretConfig s)) = trace s @ evs \<and>
            (\<forall>x \<in> set evs. isCryptoCall x \<longrightarrow>
               (if pkcs1 then \<exists>r k p. x = EncryptPKCS1v15_call r k p
                else \<exists>r k p. x = EncryptOAEP_call SHA1 r k p None))) \<and>
     ((\<forall>c \<in> set (Algorithm secretConfig). (of_char c :: nat) < 128) \<longrightarrow>
        pkcs1 = (map toLowerASCII (Algorithm secretConfig) = map toLowerASCII ''RSA/ECB/PKCS1Padding''))"
proof (intro conjI impI)
  assume loaded:
     "readPropertiesFromFile w keyStorePropertiesFile = Returned keyStoreConfigMap \<and>
      getEncryptionKey w keyStoreConfigMap = Returned (Inr encryptionKey) \<and>
      getPlainTextSecrets w secretConfig = Returned plainTextSecrets \<and>
      distinct (map fst plainTextSecrets) \<and>
      map (\<lambda>(r, al, plainText).
             if pkcs1 then rsa_EncryptPKCS1v15 w r encryptionKey plainText
             else rsa_EncryptOAEP w SHA1 r encryptionKey plainText None)
          (enumerate (rand_Reader s) plainTextSecrets) = map Inr cipherTexts"
  have enc: "(if IsPKCS1Encryption (Algorithm secretConfig)
              then encrypt encryptionKey plainTextSecrets (encryptPKCS1v15 w) s
              else encrypt encryptionKey plainTextSecrets (encryptOAEP w) s) = (Inr encryptedSecrets, s1)"
  proof (cases pkcs1)
    case True
    with loaded have "map (\<lambda>(r, al, plainText). rsa_EncryptPKCS1v15 w r encryptionKey plainText)
                        (enumerate (rand_Reader s) plainTextSecrets) = map Inr cipherTexts"
      by simp
    from encrypt_PKCS1v15_success[OF _ this] loaded True show ?thesis
      by (simp add: IsPKCS1Encryption_def pkcs1_def[symmetric] encryptedSecrets_def s1_def calls_def)
  next
    case False
    with loaded have "map (\<lambda>(r, al, plainText). rsa_EncryptOAEP w SHA1 r encryptionKey plainText None)
                        (enumerate (rand_Reader s) plainTextSecrets) = map Inr cipherTexts"
      by simp
    from encrypt_OAEP_success[OF _ this] loaded False show ?thesis
      by (simp add: IsPKCS1Encryption_def pkcs1_def[symmetric] encryptedSecrets_def s1_def calls_def)
  qed
  from loaded have stages: "EncryptSecrets w keyStorePropertiesFile secretConfig s =
        (if IsK8 (OutputType secretConfig) then
           (case printSecretsToYamlFile w encryptedSecrets s1 of
              (Returned u, s2) \<Rightarrow> (Returned None, s2)
            | (Exited n, s2) \<Rightarrow> (Exited n, s2)
            | (Panicked p, s2) \<Rightarrow> (Panicked p, s2))
         else if IsFile (OutputType secretConfig) then
           (case printSecretsToPropertiesFile w encryptedSecrets s1 of
              (Returned u, s2) \<Rightarrow> (Returned None, s2)
            | (Exited n, s2) \<Rightarrow> (Exited n, s2)
            | (Panicked p, s2) \<Rightarrow> (Panicked p, s2))
         else (Returned None, printSecretsToConsole encryptedSecrets s1))"
    by (simp only: EncryptSecrets_stages[of w keyStorePropertiesFile keyStoreConfigMap encryptionKey
                     secretConfig plainTextSecrets s] enc prod.case sum.case)
  show "EncryptSecrets w keyStorePropertiesFile secretConfig s =
        (if EqualFold (OutputType secretConfig) ''k8'' then
           (case ioutil_WriteFile w yamlPath manifest of
              Some err \<Rightarrow>
                (Exited 1,
                 s1\<lparr>trace := trace s1 @ [CreateDirIfNotExist_call dir,
                                          Fatal ''Unable to write configuration to file.'' err]\<rparr>)
            | None \<Rightarrow>
                (Returned None,
                 s1\<lparr>trace := trace s1 @
                      [CreateDirIfNotExist_call dir, WriteConfigFile_call manifest yamlPath,
                       Println (''Kubernetes secret file created in '' @ yamlPath @
                                '' with default name and namespace''),
                       Println ''You can change the default values as required before applying.'']\<rparr>))
         else if EqualFold (OutputType secretConfig) ''file'' then
           (case os_Create w propertiesPath of
              Some err \<Rightarrow>
                (Exited 1,
                 s1\<lparr>trace := trace s1 @ [CreateDirIfNotExist_call dir,
                                          Fatal ''Unable to create file.'' err]\<rparr>)
            | None \<Rightarrow>
                (case props_Write w encryptedSecrets propertiesPath of
                   Some err \<Rightarrow>
                     (Exited 1,
                      s1\<lparr>trace := trace s1 @ [CreateDirIfNotExist_call dir,
                                               Fatal ''Unable to write properties to file.'' err]\<rparr>)
                 | None \<Rightarrow>
                     (Returned None,
                      s1\<lparr>trace := trace s1 @
                           [CreateDirIfNotExist_call dir,
                            PropertiesWritten encryptedSecrets propertiesPath,
                            Println (''Secret properties file created in '' @ propertiesPath)]\<rparr>)))
         else
           (Returned None,
            s1\<lparr>trace := trace s1 @
                 map (\<lambda>(al, secret). Println (al @ '' : '' @ secret)) encryptedSecrets\<rparr>))"
    unfolding stages output_stage_cases
    by (simp add: Let_def marshal_k8sSecretConfig_def dir_def yamlPath_def propertiesPath_def manifest_def
          split: option.splits)
next
  show "\<exists>evs. trace (snd (EncryptSecrets w keyStorePropertiesFile secretConfig s)) = trace s @ evs \<and>
            (\<forall>x \<in> set evs. isCryptoCall x \<longrightarrow>
               (if pkcs1 then \<exists>r k p. x = EncryptPKCS1v15_call r k p
                else \<exists>r k p. x = EncryptOAEP_call SHA1 r k p None))"
    unfolding pkcs1_def
    using EncryptSecrets_cipher_calls[of w keyStorePropertiesFile secretConfig s] by blast
next
  assume "\<forall>c \<in> set (Algorithm secretConfig). (of_char c :: nat) < 128"
  then show "pkcs1 = (map toLowerASCII (Algorithm secretConfig) = map toLowerASCII ''RSA/ECB/PKCS1Padding'')"
    unfolding pkcs1_def by (rule EqualFold_ascii)
qed

theorem EncryptSecrets_selects_scheme_witness:
  "map toLowerASCII ''rsa/ecb/pkcs1padding'' = map toLowerASCII ''RSA/ECB/PKCS1Padding'' \<and>
   EqualFold ''rsa/ecb/pkcs1padding'' ''RSA/ECB/PKCS1Padding'' \<and>
   getPlainTextSecrets (example_mi_env ''pkcs8-rsa'')
     \<lparr>OutputType = ''file'', Algorithm = ''rsa/ecb/pkcs1padding'', InputType = ''file'',
      InputFile = ''short.properties'', PlainTextAlias = [], PlainTextSecretText = []\<rparr> =
     Returned [(''db'', ''s3cr3t''), (''queue'', ''pa55'')] \<and>
   map (\<lambda>(r, al, plainText). rsa_EncryptPKCS1v15 (example_mi_env ''pkcs8-rsa'') r example_key plainText)
     (enumerate 0 [(''db'', ''s3cr3t''), (''queue'', ''pa55'')]) =
     map Inr [''pkcs1:s3cr3t'', ''pkcs1:pa55''] \<and>
   EncryptSecrets (example_mi_env ''pkcs8-rsa'') ''keystore-info.properties''
     \<lparr>OutputType = ''file'', Algorithm = ''rsa/ecb/pkcs1padding'', InputType = ''file'',
      InputFile = ''short.properties'', PlainTextAlias = [], PlainTextSecretText = []\<rparr>
     (example_state []) =
     (Returned None,
      (example_state [])
        \<lparr>trace := [EncryptPKCS1v15_call 0 example_key ''s3cr3t'',
                   EncryptPKCS1v15_call 1 example_key ''pa55'',
                   CreateDirIfNotExist_call ''/home/op/security'',
                   PropertiesWritten [(''db'', ''b64(pkcs1:s3cr3t)''), (''queue'', ''b64(pkcs1:pa55)'')]
                     ''/home/op/security/wso2mi-secrets.properties'',
                   Println ''Secret properties file created in /home/op/security/wso2mi-secrets.properties''],
         rand_Reader := 2\<rparr>) \<and>
   \<not> EqualFold ''AES'' ''RSA/ECB/PKCS1Padding'' \<and>
   map (\<lambda>(r, al, plainText). rsa_EncryptOAEP (example_mi_env ''pkcs8-rsa'') SHA1 r example_key plainText None)
     (enumerate 0 [(''db'', ''s3cr3t'')]) =
     map Inr [''oaep:s3cr3t''] \<and>
   EncryptSecrets (example_mi_env ''pkcs8-rsa'') ''keystore-info.properties''
     (example_config ''k8'' ''AES'' ''s3cr3t'') (example_state []) =
     (Returned None,
      (example_state [])
        \<lparr>trace := [EncryptOAEP_call SHA1 0 example_key ''s3cr3t'' None,
                   CreateDirIfNotExist_call ''/home/op/security'',
                   WriteConfigFile_call
                     (YMap [(''apiVersion'', YStr ''v1''),
                            (''kind'', YStr ''Secret''),
                            (''metadata'', YMap [(''name'', YStr ''wso2misecret''),
                                                 (''namespace'', YStr ''default'')]),
                            (''stringData'', YMap [(''db'', YStr ''b64(oaep:s3cr3t)'')]),
                            (''type'', YStr ''Opaque'')])
                     ''/home/op/security/wso2mi-secrets.yaml'',
                   Println ''Kubernetes secret file created in /home/op/security/wso2mi-secrets.yaml with default name and namespace'',
                   Println ''You can change the default values as required before applying.''],
         rand_Reader := 1\<rparr>)"
  using EncryptSecrets_selects_scheme
          [where w = "example_mi_env ''pkcs8-rsa''" and keyStorePropertiesFile = "''keystore-info.properties''"
             and keyStoreConfigMap = example_keystore_properties and encryptionKey = example_key
             and secretConfig = "\<lparr>OutputType = ''file'', Algorithm = ''rsa/ecb/pkcs1padding'',
                                  InputType = ''file'', InputFile = ''short.properties'',
                                  PlainTextAlias = [], PlainTextSecretText = []\<rparr>"
             and plainTextSecrets = "[(''db'', ''s3cr3t''), (''queue'', ''pa55'')]"
             and s = "example_state []" and cipherTexts = "[''pkcs1:s3cr3t'', ''pkcs1:pa55'']"]
        EncryptSecrets_selects_scheme
          [where w = "example_mi_env ''pkcs8-rsa''" and keyStorePropertiesFile = "''keystore-info.properties''"
             and keyStoreConfigMap = example_keystore_properties and encryptionKey = example_key
             and secretConfig = "example_config ''k8'' ''AES'' ''s3cr3t''"
             and plainTextSecrets = "[(''db'', ''s3cr3t'')]"
             and s = "example_state []" and cipherTexts = "[''oaep:s3cr3t'']"]
  by (simp add: go_string_defs mi_defs mi_example_defs toLowerASCII_def enumerate_eq_zip)

section \<open>The Kubernetes output form\<close>

text \<open>
  C9: for every encrypted secret mapping, the output form \<open>k8\<close> (matched up to letter case)
  produces a manifest with \<open>apiVersion\<close> \<open>v1\<close>, \<open>kind\<close> \<open>Secret\<close>, \<open>type\<close> \<open>Opaque\<close>,
  \<open>metadata.name\<close> \<open>wso2misecret\<close>, \<open>metadata.namespace\<close> \<open>default\<close> and the mapping as
  \<open>stringData\<close>, written to \<open>wso2mi-secrets.yaml\<close> in the \<open>security\<close> subdirectory of the
  working directory. Here: when the key and the plaintexts load, encryption returns the
  mapping and the file can be written, \<open>EncryptSecrets\<close> returns \<open>nil\<close> after creating the
  directory, writing exactly that document to that path, and printing two lines.
\<close>

theorem k8_output_writes_secret_manifest:
  fixes w :: mi_env and encryptedSecrets :: gomap
    and dir path :: string and manifest :: yaml
  defines "dir \<equiv> filepath_Join w (os_Getwd w) ''security''"
      and "path \<equiv> filepath_Join w (filepath_Join w (os_Getwd w) ''security'') ''wso2mi-secrets.yaml''"
      and "manifest \<equiv>
             YMap [(''apiVersion'', YStr ''v1''),
                   (''kind'', YStr ''Secret''),
                   (''metadata'', YMap [(''name'', YStr ''wso2misecret''),
                                        (''namespace'', YStr ''default'')]),
                   (''stringData'', YMap (map (\<lambda>(alias, secret). (alias, YStr secret)) encryptedSecrets)),
                   (''type'', YStr ''Opaque'')]"
  assumes props: "readPropertiesFromFile w keyStorePropertiesFile = Returned keyStoreConfigMap"
      and key: "getEncryptionKey w keyStoreConfigMap = Returned (Inr encryptionKey)"
      and plain: "getPlainTextSecrets w secretConfig = Returned plainTextSecrets"
      and enc: "(if IsPKCS1Encryption (Algorithm secretConfig)
                 then encrypt encryptionKey plainTextSecrets (encryptPKCS1v15 w) s
                 else encrypt encryptionKey plainTextSecrets (encryptOAEP w) s) = (Inr encryptedSecrets, s1)"
      and k8: "EqualFold (OutputType secretConfig) ''k8''"
      and written: "ioutil_WriteFile w path manifest = None"
  shows "EncryptSecrets w keyStorePropertiesFile secretConfig s =
           (Returned None,
            s1\<lparr>trace := trace s1 @
                 [CreateDirIfNotExist_call dir,
                  WriteConfigFile_call manifest path,
                  Println (''Kubernetes secret file created in '' @ path @
                           '' with default name and namespace''),
                  Println ''You can change the default values as required before applying.'']\<rparr>)"
proof -
  have "printSecretsToYamlFile w encryptedSecrets s1 =
          (Returned (),
            s1\<lparr>trace := trace s1 @
                 [CreateDirIfNotExist_call dir,
                  WriteConfigFile_call manifest path,
                  Println (''Kubernetes secret file created in '' @ path @
                           '' with default name and namespace''),
                  Println ''You can change the default values as required before applying.'']\<rparr>)"
    using written
    by (simp add: printSecretsToYamlFile_cases marshal_k8sSecretConfig_def dir_def path_def manifest_def Let_def)
  then show ?thesis
    using k8 by (simp only: EncryptSecrets_stages[OF props key plain] enc IsK8_def) simp
qed

theorem k8_output_writes_secret_manifest_witness:
  "readPropertiesFromFile (example_mi_env ''pkcs8-rsa'') ''keystore-info.properties'' =
     Returned example_keystore_properties \<and>
   getEncryptionKey (example_mi_env ''pkcs8-rsa'') example_keystore_properties =
     Returned (Inr example_key) \<and>
   getPlainTextSecrets (example_mi_env ''pkcs8-rsa'') (example_config ''K8'' ''OAEP'' ''s3cr3t'') =
     Returned [(''db'', ''s3cr3t'')] \<and>
   encrypt example_key [(''db'', ''s3cr3t'')] (encryptOAEP (example_mi_env ''pkcs8-rsa'')) (example_state []) =
     (Inr [(''db'', ''b64(oaep:s3cr3t)'')],
      (example_state [])\<lparr>trace := [EncryptOAEP_call SHA1 0 example_key ''s3cr3t'' None], rand_Reader := 1\<rparr>) \<and>
   EqualFold ''K8'' ''k8'' \<and>
   EncryptSecrets (example_mi_env ''pkcs8-rsa'') ''keystore-info.properties''
       (example_config ''K8'' ''OAEP'' ''s3cr3t'') (example_state []) =
     (Returned None,
      (example_state [])\<lparr>trace :=
         [EncryptOAEP_call SHA1 0 example_key ''s3cr3t'' None,
          CreateDirIfNotExist_call ''/home/op/security'',
          WriteConfigFile_call
            (YMap [(''apiVersion'', YStr ''v1''),
                   (''kind'', YStr ''Secret''),
                   (''metadata'', YMap [(''name'', YStr ''wso2misecret''),
                                        (''namespace'', YStr ''default'')]),
                   (''stringData'', YMap [(''db'', YStr ''b64(oaep:s3cr3t)'')]),
                   (''type'', YStr ''Opaque'')])
            ''/home/op/security/wso2mi-secrets.yaml'',
          Println ''Kubernetes secret file created in /home/op/security/wso2mi-secrets.yaml with default name and namespace'',
          Println ''You can change the default values as required before applying.''],
        rand_Reader := 1\<rparr>)"
  using k8_output_writes_secret_manifest
          [of "example_mi_env ''pkcs8-rsa''" "''keystore-info.properties''" example_keystore_properties
              example_key "example_config ''K8'' ''OAEP'' ''s3cr3t''" "[(''db'', ''s3cr3t'')]"
              "example_state []" "[(''db'', ''b64(oaep:s3cr3t)'')]"
              "(example_state [])\<lparr>trace := [EncryptOAEP_call SHA1 0 example_key ''s3cr3t'' None], rand_Reader := 1\<rparr>"]
  by (simp add: go_string_defs mi_defs mi_example_defs)

section \<open>Failure of an encryption\<close>

text \<open>
  C10: \<open>EncryptSecrets\<close> is atomic on encryption failure. If the library call of the selected
  cipher fails for the value of some alias of the plaintext mapping (the \<open>i\<close>-th the loop
  visits, which draws from the random source at its \<open>i\<close>-th state), \<open>EncryptSecrets\<close> returns
  the error of the first alias whose call fails, and all it has done is cryptographic calls:
  no line is printed and no file or directory is written.
\<close>

theorem EncryptSecrets_atomic_on_encryption_failure:
  fixes w :: mi_env and secretConfig :: SecretConfig and encryptionKey :: rsa_PublicKey
    and cipher :: "nat \<Rightarrow> string \<Rightarrow> string + string"
  defines "cipher \<equiv> (\<lambda>r plainText.
             if IsPKCS1Encryption (Algorithm secretConfig)
             then rsa_EncryptPKCS1v15 w r encryptionKey plainText
             else rsa_EncryptOAEP w SHA1 r encryptionKey plainText None)"
  assumes props: "readPropertiesFromFile w keyStorePropertiesFile = Returned keyStoreConfigMap"
      and key: "getEncryptionKey w keyStoreConfigMap = Returned (Inr encryptionKey)"
      and plain: "getPlainTextSecrets w secretConfig = Returned plainTextSecrets"
      and i: "i < length plainTextSecrets"
      and fails: "cipher (rand_Reader s + i) (snd (plainTextSecrets ! i)) = Inl e"
  shows "\<exists>j err evs.
           j \<le> i \<and> cipher (rand_Reader s + j) (snd (plainTextSecrets ! j)) = Inl err \<and>
           (\<forall>k<j. \<exists>b. cipher (rand_Reader s + k) (snd (plainTextSecrets ! k)) = Inr b) \<and>
           fst (EncryptSecrets w keyStorePropertiesFile secretConfig s) = Returned (Some err) \<and>
           trace (snd (EncryptSecrets w keyStorePropertiesFile secretConfig s)) = trace s @ evs \<and>
           (\<forall>x \<in> set evs. isCryptoCall x) \<and>
           keysFile (snd (EncryptSecrets w keyStorePropertiesFile secretConfig s)) = keysFile s"
proof -
  let ?run = "EncryptSecrets w keyStorePropertiesFile secretConfig s"
  define enc where "enc = (if IsPKCS1Encryption (Algorithm secretConfig)
                    then encrypt encryptionKey plainTextSecrets (encryptPKCS1v15 w) s
                    else encrypt encryptionKey plainTextSecrets (encryptOAEP w) s)"
  have first: "\<exists>j err. j \<le> i \<and> cipher (rand_Reader s + j) (snd (plainTextSecrets ! j)) = Inl err \<and>
           (\<forall>k<j. \<exists>b. cipher (rand_Reader s + k) (snd (plainTextSecrets ! k)) = Inr b) \<and>
           fst enc = Inl err"
  proof (cases "IsPKCS1Encryption (Algorithm secretConfig)")
    case True
    then have c: "cipher = (\<lambda>r plainText. rsa_EncryptPKCS1v15 w r encryptionKey plainText)"
      and e: "enc = encrypt encryptionKey plainTextSecrets (encryptPKCS1v15 w) s"
      by (simp_all add: cipher_def enc_def)
    show ?thesis unfolding c e
      by (rule encrypt_PKCS1v15_first_failure[OF i fails[unfolded c]])
  next
    case False
    then have c: "cipher = (\<lambda>r plainText. rsa_EncryptOAEP w SHA1 r encryptionKey plainText None)"
      and e: "enc = encrypt encryptionKey plainTextSecrets (encryptOAEP w) s"
      by (simp_all add: cipher_def enc_def)
    show ?thesis unfolding c e
      by (rule encrypt_OAEP_first_failure[OF i fails[unfolded c]])
  qed
  have events: "\<exists>evs. trace (snd enc) = trace s @ evs \<and> (\<forall>x \<in> set evs. isCryptoCall x) \<and>
                  keysFile (snd enc) = keysFile s"
  proof (cases "IsPKCS1Encryption (Algorithm secretConfig)")
    case True
    from encrypt_PKCS1v15_events[of encryptionKey plainTextSecrets w s]
    obtain evs where "trace (snd (encrypt encryptionKey plainTextSecrets (encryptPKCS1v15 w) s)) = trace s @ evs"
      "\<forall>x \<in> set evs. \<exists>r p. x = EncryptPKCS1v15_call r encryptionKey p"
      "keysFile (snd (encrypt encryptionKey plainTextSecrets (encryptPKCS1v15 w) s)) = keysFile s"
      by blast
    moreover from this(2) have "\<forall>x \<in> set evs. isCryptoCall x" by fastforce
    ultimately show ?thesis using True by (simp add: enc_def)
  next
    case False
    from encrypt_OAEP_events[of encryptionKey plainTextSecrets w s]
    obtain evs where "trace (snd (encrypt encryptionKey plainTextSecrets (encryptOAEP w) s)) = trace s @ evs"
      "\<forall>x \<in> set evs. \<exists>r p. x = EncryptOAEP_call SHA1 r encryptionKey p None"
      "keysFile (snd (encrypt encryptionKey plainTextSecrets (encryptOAEP w) s)) = keysFile s"
      by blast
    moreover from this(2) have "\<forall>x \<in> set evs. isCryptoCall x" by fastforce
    ultimately show ?thesis using False by (simp add: enc_def)
  qed
  from first obtain j err where j: "j \<le> i"
    "cipher (rand_Reader s + j) (snd (plainTextSecrets ! j)) = Inl err"
    "\<forall>k<j. \<exists>b. cipher (rand_Reader s + k) (snd (plainTextSecrets ! k)) = Inr b"
    "fst enc = Inl err"
    by blast
  from events obtain evs where evs: "trace (snd enc) = trace s @ evs" "\<forall>x \<in> set evs. isCryptoCall x"
    "keysFile (snd enc) = keysFile s"
    by blast
  obtain s1 where s1: "enc = (Inl err, s1)" using j(4) by (cases enc) auto
  have "?run = (Returned (Some err), s1)"
    using EncryptSecrets_stages[OF props key plain, of s] s1 unfolding enc_def by simp
  with s1 evs have "fst ?run = Returned (Some err)" "trace (snd ?run) = trace s @ evs"
    "keysFile (snd ?run) = keysFile s"
    by simp_all
  with j(1,2,3) evs(2) show ?thesis by blast
qed

theorem EncryptSecrets_atomic_on_encryption_failure_witness:
  "readPropertiesFromFile (example_mi_env ''pkcs8-rsa'') ''keystore-info.properties'' =
     Returned example_keystore_properties \<and>
   getEncryptionKey (example_mi_env ''pkcs8-rsa'') example_keystore_properties =
     Returned (Inr example_key) \<and>
   getPlainTextSecrets (example_mi_env ''pkcs8-rsa'') (example_file_config ''file'' ''RSA/ECB/PKCS1Padding'') =
     Returned [(''db'', ''s3cr3t''), (''queue'', ''a-long-passphrase'')] \<and>
   rsa_EncryptPKCS1v15 (example_mi_env ''pkcs8-rsa'') 1 example_key ''a-long-passphrase'' =
     Inl ''crypto/rsa: message too long for RSA key size'' \<and>
   EncryptSecrets (example_mi_env ''pkcs8-rsa'') ''keystore-info.properties''
       (example_file_config ''file'' ''RSA/ECB/PKCS1Padding'') (example_state []) =
     (Returned (Some ''crypto/rsa: message too long for RSA key size''),
      (example_state [])\<lparr>trace := [EncryptPKCS1v15_call 0 example_key ''s3cr3t'',
                                     EncryptPKCS1v15_call 1 example_key ''a-long-passphrase''],
                          rand_Reader := 2\<rparr>)"
  using EncryptSecrets_atomic_on_encryption_failure
          [of "example_mi_env ''pkcs8-rsa''" "''keystore-info.properties''" example_keystore_properties
              example_key "example_file_config ''file'' ''RSA/ECB/PKCS1Padding''"
              "[(''db'', ''s3cr3t''), (''queue'', ''a-long-passphrase'')]" 1 "example_state []"
              "''crypto/rsa: message too long for RSA key size''"]
  by (simp add: go_string_defs mi_defs mi_example_defs)

section \<open>The credential flow, stage by stage\<close>

lemmas cli_helper_defs =
  EnvExistsInMainConfigFile_def GetAPIMEndpointOfEnv_def GetRegistrationEndpointOfEnv_def
  GetTokenEndpointOfEnv_def EnvExistsInKeysFile_def GetUsernameOfEnv_def GetClientIDOfEnv_def
  GetClientSecretOfEnv_def AddNewEnvToKeysFile_def PromptForUsername_def PromptForPassword_def
  Logln_def InvokePOSTRequest_def HandleErrorAndExit_def println_def emit_def
  GetBase64EncodedCredentials_def StatusOK_def StatusCreated_def StatusUnauthorized_def
  apostrophe_def

lemmas cli_defs =
  ExecutePreCommandWithBasicAuth_def ExecutePreCommandWithOAuth_def GetClientIDSecret_def
  GetOAuthTokens_def cli_helper_defs

lemmas cli_example_defs = example_cli_env_def example_state_def

text \<open>\<open>put\<close> stores the record under the environment's name.\<close>

lemma map_of_put: "map_of (put m env keys) env = Some keys"
  by (induction m) auto

text \<open>The registration request, by what the server answers.\<close>

lemma GetClientIDSecret_cases:
  "GetClientIDSecret w username password url s =
     (let headers = [(HeaderContentType w, HeaderValueApplicationJSON w)];
          headers = assign headers (HeaderAuthorization w)
                      (HeaderValueAuthBasicPrefix w @ '' '' @ GetBase64EncodedCredentials w username password);
          request = POST_call url headers (registrationBody w)
      in case http_POST w url headers (registrationBody w) of
           Inl err \<Rightarrow>
             (Exited 1, s\<lparr>trace := trace s @ [request, Fatal ''Error in connecting.'' err]\<rparr>)
         | Inr resp \<Rightarrow>
             if StatusCode resp = 200 \<or> StatusCode resp = 201 then
               (Returned (fst (fst (json_Unmarshal_RegistrationResponse w (Body resp))),
                          snd (fst (json_Unmarshal_RegistrationResponse w (Body resp))),
                          snd (json_Unmarshal_RegistrationResponse w (Body resp))),
                s\<lparr>trace := trace s @
                    [request,
                     Logln_call (''Getting ClientID, ClientSecret: Status - '' @ Status resp)]\<rparr>)
             else if StatusCode resp = 401 then
               (Exited 1,
                s\<lparr>trace := trace s @
                    [request,
                     Logln_call (''Getting ClientID, ClientSecret: Status - '' @ Status resp),
                     Println (''Error: '' @ Error resp), Println (''Body: '' @ Body resp),
                     Fatal ''Incorrect Username/Password combination.'' ''401 Unauthorized'']\<rparr>)
             else
               (Returned ([], [], Some (''Request didn'' @ apostrophe @ ''t respond 200 OK: '' @ Status resp)),
                s\<lparr>trace := trace s @
                    [request,
                     Logln_call (''Getting ClientID, ClientSecret: Status - '' @ Status resp),
                     Println (''Error: '' @ Error resp), Println (''Body: '' @ Body resp)]\<rparr>))"
  by (simp add: GetClientIDSecret_def cli_helper_defs Let_def split: sum.splits prod.splits)

text \<open>What \<open>GetClientIDSecret\<close> returns does not depend on the state it starts from; it sends
  one request and leaves the keys files alone, and so does \<open>GetOAuthTokens\<close>.\<close>

lemma GetClientIDSecret_fst:
  "fst (GetClientIDSecret w username password url s) = fst (GetClientIDSecret w username password url t)"
  by (simp add: GetClientIDSecret_cases Let_def split: sum.splits)

lemma GetClientIDSecret_effect:
  "\<exists>headers evs. trace (snd (GetClientIDSecret w username password url s)) =
                    trace s @ POST_call url headers (registrationBody w) # evs \<and>
                 (\<forall>e \<in> set evs. \<not> isPOST e) \<and>
                 keysFile (snd (GetClientIDSecret w username password url s)) = keysFile s \<and>
                 rand_Reader (snd (GetClientIDSecret w username password url s)) = rand_Reader s"
  by (simp add: GetClientIDSecret_cases Let_def split: sum.splits)

lemma GetOAuthTokens_keysFile:
  "keysFile (snd (GetOAuthTokens w username password b64 url s)) = keysFile s"
  by (simp add: GetOAuthTokens_def cli_helper_defs Let_def split: sum.splits prod.splits)

text \<open>
  \<open>ExecutePreCommandWithOAuth\<close> on a cache miss (the environment is configured and has no
  record in the keys file): the credentials come from the flags or the prompts, then
  registration, persistence and the token request follow.
\<close>

lemma ExecutePreCommandWithOAuth_cache_miss:
  fixes w :: cli_env and s :: state
    and environment flagUsername flagPassword username password :: string
    and asked :: "event list" and s4 :: state
  defines "username \<equiv> (if flagUsername \<noteq> [] then flagUsername else TrimSpace (typedUsername w))"
      and "password \<equiv> (if flagUsername \<noteq> [] \<and> flagPassword \<noteq> [] then flagPassword else typedPassword w)"
      and "asked \<equiv> (if flagUsername \<noteq> [] then
                        (if flagPassword = [] then [Println (''For Username: '' @ flagUsername), PromptForPassword_call]
                         else [])
                      else [PromptForUsername_call, PromptForPassword_call])"
      and "s4 \<equiv> s\<lparr>trace := trace s @
                     [Logln_call (LogPrefixInfo w @ ''Environment: '' @ apostrophe @ environment @ apostrophe),
                      Logln_call (LogPrefixInfo w @ ''Reg Endpoint read: '' @
                                  GetRegistrationEndpointOfEnv w environment (MainConfigFilePath w))] @
                     asked @ [Println ([CHR 0x0A] @ ''Username: '' @ username @ [CHR 0x0A])]\<rparr>"
  assumes known: "EnvExistsInMainConfigFile w environment (MainConfigFilePath w)"
      and uncached: "map_of (keysFile s envKeysAllFilePath) environment = None"
  shows "ExecutePreCommandWithOAuth w environment flagUsername flagPassword
             mainConfigFilePath envKeysAllFilePath s =
           (case GetClientIDSecret w username password
                   (GetRegistrationEndpointOfEnv w environment (MainConfigFilePath w)) s4 of
              (Exited n, s5) \<Rightarrow> (Exited n, s5)
            | (Panicked p, s5) \<Rightarrow> (Panicked p, s5)
            | (Returned (clientID, clientSecret, err), s5) \<Rightarrow>
                (let s6 = (case err of None \<Rightarrow> s5 | Some e \<Rightarrow> println (''Error: '' @ e) s5);
                     s7 = println (''ClientID: '' @ clientID) s6;
                     s8 = println (''ClientSecret: '' @ clientSecret) s7;
                     s9 = AddNewEnvToKeysFile environment
                            \<lparr>ClientID = clientID,
                             ClientSecret = Encrypt w (GetMD5Hash w password) clientSecret,
                             Username = username\<rparr> envKeysAllFilePath s8
                 in case GetOAuthTokens w username password
                           (GetBase64EncodedCredentials w clientID clientSecret)
                           (GetTokenEndpointOfEnv w environment mainConfigFilePath) s9 of
                      (Exited n, s11) \<Rightarrow> (Exited n, s11)
                    | (Panicked p, s11) \<Rightarrow> (Panicked p, s11)
                    | (Returned (responseDataMap, ignored), s11) \<Rightarrow>
                        (Returned (lookup responseDataMap ''access_token'',
                                   GetAPIMEndpointOfEnv w environment mainConfigFilePath, None),
                         Logln (LogPrefixInfo w @ ''[Remove in Production] AccessToken: '' @
                                lookup responseDataMap ''access_token'') s11)))"
proof -
  show ?thesis
  proof (cases "flagUsername = []")
    case True
    then show ?thesis
      unfolding ExecutePreCommandWithOAuth_def
      by (simp add: known uncached EnvExistsInKeysFile_def Let_def username_def password_def asked_def s4_def
            PromptForUsername_def PromptForPassword_def Logln_def println_def emit_def
          split: prod.splits outcome.splits cong: prod.case_cong outcome.case_cong)
  next
    case False
    then show ?thesis
      unfolding ExecutePreCommandWithOAuth_def
      by (cases "flagPassword = []")
         (simp_all add: known uncached EnvExistsInKeysFile_def Let_def username_def password_def asked_def s4_def
            PromptForUsername_def PromptForPassword_def Logln_def println_def emit_def
          split: prod.splits outcome.splits cong: prod.case_cong outcome.case_cong)
  qed
qed

text \<open>A first use of the environment \<open>dev\<close> with the flags \<open>-u admin -p admin123\<close>, when the
  registration endpoint answers 500.\<close>

lemma registration_500_run:
  "ExecutePreCommandWithOAuth (example_cli_env 500) ''dev'' ''admin'' ''admin123''
       ''/home/op/main_config.yaml'' ''/home/op/env_keys_all.yaml'' (example_state []) =
     (Returned (''token-1'', ''https://dev/api'', None),
      \<lparr>trace =
         [Logln_call (''[INFO]: Environment: '' @ apostrophe @ ''dev'' @ apostrophe),
          Logln_call ''[INFO]: Reg Endpoint read: https://dev/register'',
          Println ([CHR 0x0A] @ ''Username: admin'' @ [CHR 0x0A]),
          POST_call ''https://dev/register''
            [(''Content-Type'', ''application/json''), (''Authorization'', ''Basic b64(admin:admin123)'')]
            ''{registration}'',
          Logln_call ''Getting ClientID, ClientSecret: Status - status'',
          Println ''Error: none'',
          Println ''Body: {client}'',
          Println (''Error: Request didn'' @ apostrophe @ ''t respond 200 OK: status''),
          Println ''ClientID: '',
          Println ''ClientSecret: '',
          Logln_call ''[ERROR]: connecting to https://dev/token'',
          POST_call ''https://dev/token''
            [(''Content-Type'', ''application/x-www-form-urlencoded''),
             (''Authorization'', ''Bearer b64(:)''),
             (''Accept'', ''application/json'')]
            ''grant_type=password&username=admin&password=admin123&validity_period=3600&scope=apim:api_view'',
          Logln_call ''[INFO]: [Remove in Production] AccessToken: token-1''],
       rand_Reader = 0,
       keysFile = (keysFile (example_state []))
         (''/home/op/env_keys_all.yaml'' :=
            [(''dev'', \<lparr>ClientID = [], ClientSecret = ''enc(md5(admin123),)'', Username = ''admin''\<rparr>)])\<rparr>)"
  by (simp add: cli_defs cli_example_defs lookup_def Let_def)

section \<open>A flag username that differs from the cached one\<close>

text \<open>
  C2: for every environment with a cached credential record, a non-empty flag username that
  differs from the cached username makes both \<open>ExecutePreCommandWithBasicAuth\<close> and
  \<open>ExecutePreCommandWithOAuth\<close> abort with the credential-mismatch failure, without any
  network call. For an environment of the main configuration file: each of them prints the
  warning and the hint to run \<open>reset-user\<close> and exits with status 1, and the trace has no HTTP
  request that it did not have before.
\<close>

theorem flag_username_mismatch_is_fatal:
  fixes w :: cli_env and environment :: string and warning hint :: string
  defines "warning \<equiv> LogPrefixWarning w @ ''Username entered with flag -u for the environment '' @
                       apostrophe @ environment @ apostrophe @
                       '' is not the same as username found in file '' @
                       apostrophe @ EnvKeysAllFilePath w @ apostrophe"
      and "hint \<equiv> ''Execute '' @ apostrophe @ ProjectName w @ '' reset-user -e '' @
                    environment @ apostrophe @ '' to clear user data''"
  assumes known: "EnvExistsInMainConfigFile w environment (MainConfigFilePath w)"
      and cached: "map_of (keysFile s envKeysAllFilePath) environment = Some cachedKeys"
      and given: "flagUsername \<noteq> []"
      and differs: "flagUsername \<noteq> Username cachedKeys"
  shows "ExecutePreCommandWithBasicAuth w environment flagUsername flagPassword
             mainConfigFilePath envKeysAllFilePath s =
           (Exited 1,
            s\<lparr>trace := trace s @
                 [Logln_call (LogPrefixInfo w @ ''Environment: '' @ apostrophe @ environment @ apostrophe),
                  Println warning, Println hint]\<rparr>) \<and>
         ExecutePreCommandWithOAuth w environment flagUsername flagPassword
             mainConfigFilePath envKeysAllFilePath s =
           (Exited 1,
            s\<lparr>trace := trace s @
                 [Logln_call (LogPrefixInfo w @ ''Environment: '' @ apostrophe @ environment @ apostrophe),
                  Logln_call (LogPrefixInfo w @ ''Reg Endpoint read: '' @
                              GetRegistrationEndpointOfEnv w environment (MainConfigFilePath w)),
                  Println warning, Println hint]\<rparr>) \<and>
         filter isPOST (trace (snd (ExecutePreCommandWithBasicAuth w environment flagUsername flagPassword
             mainConfigFilePath envKeysAllFilePath s))) = filter isPOST (trace s) \<and>
         filter isPOST (trace (snd (ExecutePreCommandWithOAuth w environment flagUsername flagPassword
             mainConfigFilePath envKeysAllFilePath s))) = filter isPOST (trace s)"
proof -
  have basic: "ExecutePreCommandWithBasicAuth w environment flagUsername flagPassword
             mainConfigFilePath envKeysAllFilePath s =
           (Exited 1,
            s\<lparr>trace := trace s @
                 [Logln_call (LogPrefixInfo w @ ''Environment: '' @ apostrophe @ environment @ apostrophe),
                  Println warning, Println hint]\<rparr>)"
    using known cached given differs
    by (simp add: ExecutePreCommandWithBasicAuth_def EnvExistsInKeysFile_def GetUsernameOfEnv_def
          Logln_def println_def emit_def Let_def warning_def hint_def)
  have oauth: "ExecutePreCommandWithOAuth w environment flagUsername flagPassword
             mainConfigFilePath envKeysAllFilePath s =
           (Exited 1,
            s\<lparr>trace := trace s @
                 [Logln_call (LogPrefixInfo w @ ''Environment: '' @ apostrophe @ environment @ apostrophe),
                  Logln_call (LogPrefixInfo w @ ''Reg Endpoint read: '' @
                              GetRegistrationEndpointOfEnv w environment (MainConfigFilePath w)),
                  Println warning, Println hint]\<rparr>)"
    using known cached given differs
    by (simp add: ExecutePreCommandWithOAuth_def EnvExistsInKeysFile_def GetUsernameOfEnv_def
          Logln_def println_def emit_def Let_def warning_def hint_def)
  show ?thesis
    by (simp add: basic oauth)
qed

theorem flag_username_mismatch_is_fatal_witness:
  "EnvExistsInMainConfigFile (example_cli_env 200) ''dev'' (MainConfigFilePath (example_cli_env 200)) \<and>
   map_of (keysFile (example_state [(''dev'', \<lparr>ClientID = ''id-0'', ClientSecret = ''x'', Username = ''admin''\<rparr>)])
             ''/home/op/env_keys_all.yaml'') ''dev'' =
     Some \<lparr>ClientID = ''id-0'', ClientSecret = ''x'', Username = ''admin''\<rparr> \<and>
   ''bob'' \<noteq> [] \<and> ''bob'' \<noteq> ''admin'' \<and>
   fst (ExecutePreCommandWithBasicAuth (example_cli_env 200) ''dev'' ''bob'' ''pw''
          ''/home/op/main_config.yaml'' ''/home/op/env_keys_all.yaml''
          (example_state [(''dev'', \<lparr>ClientID = ''id-0'', ClientSecret = ''x'', Username = ''admin''\<rparr>)])) = Exited 1 \<and>
   fst (ExecutePreCommandWithOAuth (example_cli_env 200) ''dev'' ''bob'' ''pw''
          ''/home/op/main_config.yaml'' ''/home/op/env_keys_all.yaml''
          (example_state [(''dev'', \<lparr>ClientID = ''id-0'', ClientSecret = ''x'', Username = ''admin''\<rparr>)])) = Exited 1 \<and>
   filter isPOST (trace (snd (ExecutePreCommandWithOAuth (example_cli_env 200) ''dev'' ''bob'' ''pw''
          ''/home/op/main_config.yaml'' ''/home/op/env_keys_all.yaml''
          (example_state [(''dev'', \<lparr>ClientID = ''id-0'', ClientSecret = ''x'', Username = ''admin''\<rparr>)])))) = []"
  using flag_username_mismatch_is_fatal
          [of "example_cli_env 200" "''dev''"
              "example_state [(''dev'', \<lparr>ClientID = ''id-0'', ClientSecret = ''x'', Username = ''admin''\<rparr>)]"
              "''/home/op/env_keys_all.yaml''"
              "\<lparr>ClientID = ''id-0'', ClientSecret = ''x'', Username = ''admin''\<rparr>"
              "''bob''" "''pw''" "''/home/op/main_config.yaml''"]
  by (simp add: cli_example_defs EnvExistsInMainConfigFile_def)

section \<open>Registration answered with an error status\<close>

text \<open>
  C3: a registration response whose status is neither 200 nor 201 is to be fatal: the OAuth
  flow ends and goes on neither to persistence nor to the token exchange. With a
  registration endpoint that answers 500, \<open>GetClientIDSecret\<close> returns an error to
  \<open>ExecutePreCommandWithOAuth\<close>, which prints it and goes on: the token request is sent, with
  the credentials of an empty client id and secret, and the command returns a token.
\<close>

theorem registration_500_reaches_token_request:
  "http_POST (example_cli_env 500) ''https://dev/register''
     [(''Content-Type'', ''application/json''), (''Authorization'', ''Basic b64(admin:admin123)'')]
     ''{registration}'' =
     Inr \<lparr>StatusCode = 500, Status = ''status'', Body = ''{client}'', Error = ''none''\<rparr> \<and>
   fst (ExecutePreCommandWithOAuth (example_cli_env 500) ''dev'' ''admin'' ''admin123''
          ''/home/op/main_config.yaml'' ''/home/op/env_keys_all.yaml'' (example_state [])) =
     Returned (''token-1'', ''https://dev/api'', None) \<and>
   filter isPOST
     (trace (snd (ExecutePreCommandWithOAuth (example_cli_env 500) ''dev'' ''admin'' ''admin123''
                    ''/home/op/main_config.yaml'' ''/home/op/env_keys_all.yaml'' (example_state [])))) =
     [POST_call ''https://dev/register''
        [(''Content-Type'', ''application/json''), (''Authorization'', ''Basic b64(admin:admin123)'')]
        ''{registration}'',
      POST_call ''https://dev/token''
        [(''Content-Type'', ''application/x-www-form-urlencoded''),
         (''Authorization'', ''Bearer b64(:)''),
         (''Accept'', ''application/json'')]
        ''grant_type=password&username=admin&password=admin123&validity_period=3600&scope=apim:api_view'']"
  by (simp add: registration_500_run) (simp add: example_cli_env_def)

text \<open>
  C4: a record is to be added to the keys file only when registration has completed
  successfully. With a registration endpoint that answers 500, \<open>GetClientIDSecret\<close> returns
  an error, and the keys file, empty before, holds a record for the environment afterwards,
  with an empty client id.
\<close>

theorem registration_500_persists_record:
  "fst (GetClientIDSecret (example_cli_env 500) ''admin'' ''admin123'' ''https://dev/register''
          (example_state [])) =
     Returned ([], [], Some (''Request didn'' @ apostrophe @ ''t respond 200 OK: status'')) \<and>
   keysFile (example_state []) ''/home/op/env_keys_all.yaml'' = [] \<and>
   keysFile (snd (ExecutePreCommandWithOAuth (example_cli_env 500) ''dev'' ''admin'' ''admin123''
                    ''/home/op/main_config.yaml'' ''/home/op/env_keys_all.yaml'' (example_state [])))
     ''/home/op/env_keys_all.yaml'' =
     [(''dev'', \<lparr>ClientID = [], ClientSecret = ''enc(md5(admin123),)'', Username = ''admin''\<rparr>)]"
  by (simp add: registration_500_run) (simp add: GetClientIDSecret_cases cli_example_defs Let_def)



section \<open>The persisted client secret\<close>

text \<open>
  C7: on a cache miss in OAuth mode, the client secret of the new record is not the plaintext
  secret but its encryption under the MD5 hash of the password just supplied, and the
  password is not persisted. Whenever registration returns (with or without an error), the
  run changes the keys file at the given path only, by putting under the environment's name
  the record of the client id, \<open>Encrypt (GetMD5Hash password) clientSecret\<close> and the username,
  where the password is the flag password if both flags are given and the typed one
  otherwise; the record has no other field. \<open>Encrypt\<close> and \<open>GetMD5Hash\<close> are not among the
  sources: for any \<open>Encrypt\<close> that never returns its plaintext, the stored secret differs from
  the client secret.
\<close>

theorem cache_miss_persists_encrypted_secret:
  fixes w :: cli_env and flagUsername flagPassword username password :: string
  defines "username \<equiv> (if flagUsername \<noteq> [] then flagUsername else TrimSpace (typedUsername w))"
      and "password \<equiv> (if flagUsername \<noteq> [] \<and> flagPassword \<noteq> [] then flagPassword else typedPassword w)"
  assumes known: "EnvExistsInMainConfigFile w environment (MainConfigFilePath w)"
      and uncached: "map_of (keysFile s envKeysAllFilePath) environment = None"
      and registered: "fst (GetClientIDSecret w username password
                              (GetRegistrationEndpointOfEnv w environment (MainConfigFilePath w)) s) =
                         Returned (clientID, clientSecret, err)"
  shows "keysFile (snd (ExecutePreCommandWithOAuth w environment flagUsername flagPassword
                          mainConfigFilePath envKeysAllFilePath s)) =
           (keysFile s)(envKeysAllFilePath :=
              put (keysFile s envKeysAllFilePath) environment
                \<lparr>ClientID = clientID,
                 ClientSecret = Encrypt w (GetMD5Hash w password) clientSecret,
                 Username = username\<rparr>) \<and>
         map_of (keysFile (snd (ExecutePreCommandWithOAuth w environment flagUsername flagPassword
                                  mainConfigFilePath envKeysAllFilePath s)) envKeysAllFilePath) environment =
           Some \<lparr>ClientID = clientID,
                 ClientSecret = Encrypt w (GetMD5Hash w password) clientSecret,
                 Username = username\<rparr> \<and>
         ((\<forall>key secret. Encrypt w key secret \<noteq> secret) \<longrightarrow>
            (\<forall>keys. map_of (keysFile (snd (ExecutePreCommandWithOAuth w environment flagUsername flagPassword
                                              mainConfigFilePath envKeysAllFilePath s)) envKeysAllFilePath)
                          environment = Some keys \<longrightarrow>
                    ClientSecret keys \<noteq> clientSecret))"
proof -
  define asked where "asked = (if flagUsername \<noteq> [] then
                        (if flagPassword = [] then [Println (''For Username: '' @ flagUsername), PromptForPassword_call]
                         else [])
                      else [PromptForUsername_call, PromptForPassword_call])"
  define s4 where "s4 = s\<lparr>trace := trace s @
                     [Logln_call (LogPrefixInfo w @ ''Environment: '' @ apostrophe @ environment @ apostrophe),
                      Logln_call (LogPrefixInfo w @ ''Reg Endpoint read: '' @
                                  GetRegistrationEndpointOfEnv w environment (MainConfigFilePath w))] @
                     asked @ [Println ([CHR 0x0A] @ ''Username: '' @ username @ [CHR 0x0A])]\<rparr>"
  let ?reg = "GetClientIDSecret w username password
                (GetRegistrationEndpointOfEnv w environment (MainConfigFilePath w))"
  let ?run = "ExecutePreCommandWithOAuth w environment flagUsername flagPassword
                mainConfigFilePath envKeysAllFilePath s"
  let ?keys = "\<lparr>ClientID = clientID,
                 ClientSecret = Encrypt w (GetMD5Hash w password) clientSecret,
                 Username = username\<rparr>"
  from registered have "fst (?reg s4) = Returned (clientID, clientSecret, err)"
    by (simp add: GetClientIDSecret_fst[of w username password _ s4 s])
  then obtain s5 where s5: "?reg s4 = (Returned (clientID, clientSecret, err), s5)"
    by (cases "?reg s4") auto
  have "keysFile (snd (?reg s4)) = keysFile s4"
    using GetClientIDSecret_effect[of w username password _ s4] by blast
  with s5 have k5: "keysFile s5 = keysFile s" by (simp add: s4_def)
  let ?s9 = "AddNewEnvToKeysFile environment ?keys envKeysAllFilePath
               (println (''ClientSecret: '' @ clientSecret)
                  (println (''ClientID: '' @ clientID)
                     (case err of None \<Rightarrow> s5 | Some e \<Rightarrow> println (''Error: '' @ e) s5)))"
  let ?tok = "GetOAuthTokens w username password
                (GetBase64EncodedCredentials w clientID clientSecret)
                (GetTokenEndpointOfEnv w environment mainConfigFilePath) ?s9"
  have k9: "keysFile ?s9 = (keysFile s)(envKeysAllFilePath := put (keysFile s envKeysAllFilePath) environment ?keys)"
    using k5 by (simp add: AddNewEnvToKeysFile_def println_def emit_def split: option.splits)
  have run_eq: "?run =
      (case ?tok of
         (Exited n, s11) \<Rightarrow> (Exited n, s11)
       | (Panicked p, s11) \<Rightarrow> (Panicked p, s11)
       | (Returned (responseDataMap, ignored), s11) \<Rightarrow>
           (Returned (lookup responseDataMap ''access_token'',
                      GetAPIMEndpointOfEnv w environment mainConfigFilePath, None),
            Logln (LogPrefixInfo w @ ''[Remove in Production] AccessToken: '' @
                   lookup responseDataMap ''access_token'') s11))"
    using s5
    unfolding ExecutePreCommandWithOAuth_cache_miss[OF known uncached] s4_def asked_def
      username_def password_def
    by (simp add: Let_def)
  obtain r s11 where tok: "?tok = (r, s11)" by (cases ?tok)
  with GetOAuthTokens_keysFile[of w username password
         "GetBase64EncodedCredentials w clientID clientSecret"
         "GetTokenEndpointOfEnv w environment mainConfigFilePath" ?s9]
  have k11: "keysFile s11 = keysFile ?s9" by simp
  have run: "keysFile (snd ?run) = keysFile ?s9"
    unfolding run_eq tok using k11
    by (simp add: Logln_def emit_def split: outcome.splits prod.splits)
  show ?thesis
    unfolding run k9 by (simp add: map_of_put)
qed

theorem cache_miss_persists_encrypted_secret_witness:
  "EnvExistsInMainConfigFile (example_cli_env 201) ''dev'' (MainConfigFilePath (example_cli_env 201)) \<and>
   map_of (keysFile (example_state []) ''/home/op/env_keys_all.yaml'') ''dev'' = None \<and>
   fst (GetClientIDSecret (example_cli_env 201) ''admin'' ''admin123'' ''https://dev/register''
          (example_state [])) = Returned (''id-1'', ''secret-1'', None) \<and>
   (\<forall>key secret. Encrypt (example_cli_env 201) key secret \<noteq> secret) \<and>
   keysFile (snd (ExecutePreCommandWithOAuth (example_cli_env 201) ''dev'' ''admin'' []
                    ''/home/op/main_config.yaml'' ''/home/op/env_keys_all.yaml'' (example_state [])))
     ''/home/op/env_keys_all.yaml'' =
     [(''dev'', \<lparr>ClientID = ''id-1'', ClientSecret = ''enc(md5(admin123),secret-1)'',
                 Username = ''admin''\<rparr>)]"
proof -
  have "length (Encrypt (example_cli_env 201) key secret) \<noteq> length secret" for key secret
    by (simp add: example_cli_env_def)
  then have "\<forall>key secret. Encrypt (example_cli_env 201) key secret \<noteq> secret"
    by metis
  then show ?thesis
    using cache_miss_persists_encrypted_secret
            [of "example_cli_env 201" "''dev''" "example_state []" "''/home/op/env_keys_all.yaml''"
                "''admin''" "[]" "''id-1''" "''secret-1''" None "''/home/op/main_config.yaml''"]
    by (simp add: GetClientIDSecret_cases cli_helper_defs cli_example_defs Let_def)
qed

end
